theory Spec2Isabelle
  imports Complex_Main "HOL-Library.Sublist"
begin

section \<open>JavaScript values\<close>

text \<open>
  The corrective-retrieval core of the repository is three classes: \<open>QueryAnalyzer\<close>
  (src/src/queryAnalyzer.js), \<open>Retriever\<close> (src/unnamed/part_003) and \<open>WebSearcher\<close>
  (src/unnamed/part_004). They are embedded below, function by function.

  A JavaScript string is modelled as a \<open>string\<close>, one \<open>char\<close> per UTF-16 code unit, so the
  model covers the strings whose code units are below 256 (ASCII and Latin-1), and
  \<open>length\<close> is the property \<open>.length\<close>. Console output is not modelled; an expression that is
  evaluated only to be logged is modelled where it can throw.
\<close>

text \<open>
  The values \<open>JSON.parse\<close> can return, and the object literals the analyzer builds. An object
  is its list of properties, read with \<open>map_of\<close>. \<open>JNum\<close> carries the number; the code only
  tests whether it is zero.
\<close>

datatype json =
    JNull
  | JBool bool
  | JNum real
  | JStr string
  | JArr "json list"
  | JObj "(string \<times> json) list"

text \<open>The exceptions the code can see: what a collaborator throws, and the engine's own.\<close>

datatype error =
    Error string
  | TypeError string
  | SyntaxError string

text \<open>
  Truthiness (\<open>ToBoolean\<close>), on a value that may be \<open>undefined\<close> (\<open>None\<close>): \<open>undefined\<close>,
  \<open>null\<close>, \<open>false\<close>, \<open>0\<close> and the empty string are falsy, every object and array is truthy.
\<close>

fun truthy :: "json option \<Rightarrow> bool" where
  "truthy None = False"
| "truthy (Some JNull) = False"
| "truthy (Some (JBool b)) = b"
| "truthy (Some (JNum n)) = (n \<noteq> 0)"
| "truthy (Some (JStr s)) = (s \<noteq> [])"
| "truthy (Some (JArr xs)) = True"
| "truthy (Some (JObj kvs)) = True"

text \<open>
  The property read \<open>v.k\<close> for the property names the code uses (none of them is a built-in
  property of a string, a number or an array): \<open>null.k\<close> throws a \<open>TypeError\<close>, an object
  gives its property or \<open>undefined\<close>, every other value gives \<open>undefined\<close>.
\<close>

fun getProp :: "json \<Rightarrow> string \<Rightarrow> error + json option" where
  "getProp JNull k = Inl (TypeError ''Cannot read properties of null'')"
| "getProp (JObj kvs) k = Inr (map_of kvs k)"
| "getProp v k = Inr None"

text \<open>\<open>a || b\<close> on a left operand that may be \<open>undefined\<close>.\<close>

definition orElse :: "json option \<Rightarrow> json \<Rightarrow> json" where
  "orElse a b = (if truthy a then the a else b)"

text \<open>
  Whether the string conversion of a value throws, as in a template literal \<open>`${v}`\<close>. A
  parsed object has no function among its properties, so the conversion of an object that
  has a property \<open>toString\<close> of its own finds no method to call (\<open>Object.prototype.valueOf\<close>
  gives the object back) and throws a \<open>TypeError\<close>; every other object is
  \<open>[object Object]\<close>. An array joins the conversions of its elements, \<open>null\<close> as the empty
  string, so it throws when one of them does.
\<close>

fun stringThrows :: "json \<Rightarrow> bool" where
  "stringThrows (JObj kvs) = (map_of kvs ''toString'' \<noteq> None)"
| "stringThrows (JArr xs) = list_ex stringThrows xs"
| "stringThrows v = False"

text \<open>
  \<open>`${v}`\<close> on a value that may be \<open>undefined\<close>, for a string that is only logged: what is
  kept is whether the conversion throws.
\<close>

definition templateValue :: "json option \<Rightarrow> error + unit" where
  "templateValue v =
     (case v of
        None \<Rightarrow> Inr ()
      | Some x \<Rightarrow>
          if stringThrows x then Inl (TypeError ''Cannot convert object to primitive value'')
          else Inr ())"

section \<open>String and array built-ins\<close>

text \<open>
  \<open>String.prototype.toLowerCase\<close> on code units below 256: \<open>A\<close>..\<open>Z\<close> and the Latin-1
  capitals (0xC0..0xDE but the multiplication sign 0xD7) move up by 32.
\<close>

definition lowerChar :: "char \<Rightarrow> char" where
  "lowerChar c =
     (let n = (of_char c :: nat)
      in if (65 \<le> n \<and> n \<le> 90) \<or> (192 \<le> n \<and> n \<le> 222 \<and> n \<noteq> 215)
         then char_of (n + 32) else c)"

definition toLowerCase :: "string \<Rightarrow> string" where
  "toLowerCase s = map lowerChar s"

text \<open>\<open>s.includes(t)\<close>: \<open>t\<close> occurs in \<open>s\<close> at some position.\<close>

primrec str_includes :: "string \<Rightarrow> string \<Rightarrow> bool" where
  "str_includes [] t = (t = [])"
| "str_includes (c # s) t = (prefix t (c # s) \<or> str_includes s t)"

text \<open>\<open>xs.some(p)\<close>, tried from the left.\<close>

primrec arr_some :: "('a \<Rightarrow> bool) \<Rightarrow> 'a list \<Rightarrow> bool" where
  "arr_some p [] = False"
| "arr_some p (x # xs) = (if p x then True else arr_some p xs)"

text \<open>\<open>xs.reduce(f, init)\<close>: the accumulator runs over the array from the left.\<close>

primrec arr_reduce :: "('b \<Rightarrow> 'a \<Rightarrow> 'b) \<Rightarrow> 'b \<Rightarrow> 'a list \<Rightarrow> 'b" where
  "arr_reduce f acc [] = acc"
| "arr_reduce f acc (x # xs) = arr_reduce f (f acc x) xs"

text \<open>
  \<open>xs.join(sep)\<close> on an array of strings.
\<close>

fun arr_join :: "string \<Rightarrow> string list \<Rightarrow> string" where
  "arr_join sep [] = []"
| "arr_join sep [x] = x"
| "arr_join sep (x # y # ys) = x @ sep @ arr_join sep (y # ys)"

section \<open>Chunks\<close>

text \<open>
  A row of the vector index as the code reads it: \<open>text\<close>, \<open>contentType\<close>, \<open>pageNumber\<close> and
  \<open>_distance\<close>. The code guards \<open>text\<close> with \<open>?.\<close> in the heuristic, so the field may be absent.
\<close>

record chunk =
  chunk_text :: "string option"
  chunk_contentType :: "string option"
  chunk_pageNumber :: "nat option"
  chunk_distance :: real

text \<open>\<open>chunk.text?.length || 0\<close>\<close>

definition textLength :: "chunk \<Rightarrow> nat" where
  "textLength c = (case chunk_text c of None \<Rightarrow> 0 | Some s \<Rightarrow> length s)"

section \<open>QueryAnalyzer.quickAnalysis\<close>

definition webIndicators :: "string list" where
  "webIndicators =
     [''latest'', ''recent'', ''current'', ''today'', ''now'', ''new'', ''news'', ''update'',
      ''trend'', ''price'', ''stock'', ''weather'', ''2024'', ''2025'', ''this year'',
      ''this month'']"

definition quickAnalysis :: "string \<Rightarrow> chunk list \<Rightarrow> json" where
  "quickAnalysis query retrievedChunks =
     (let queryLower = toLowerCase query;
          needsWebInfo = arr_some (\<lambda>indicator. str_includes queryLower indicator) webIndicators;
          totalLength = arr_reduce (\<lambda>sum c. sum + textLength c) 0 retrievedChunks;
          requiresWeb = (needsWebInfo \<or> totalLength < 100)
      in JObj
          [(''relevance_score'', JNum (if requiresWeb then 4 else 7)),
           (''is_sufficient'', JBool (\<not> requiresWeb)),
           (''requires_web_search'', JBool requiresWeb),
           (''reasoning'',
              JStr (if requiresWeb
                then ''Query appears to need current information or retrieved content is insufficient''
                else ''Retrieved documents should be sufficient'')),
           (''suggested_search_query'', if requiresWeb then JStr query else JNull)])"

section \<open>Effects: external calls and exceptions\<close>

text \<open>
  Every collaborator is outside the repository: the LanceDB connection and table, the
  embedding endpoint, the chat-completion endpoint and the \<open>googlethis\<close> search. A call to
  one of them is recorded in a log, and its outcome (a value, or an exception) may depend on
  everything that was called before: each collaborator is a function of the log so far and
  of the call's arguments. An \<open>async\<close> function is a computation that takes the log and
  returns its outcome and the extended log; a rejected promise is \<open>Inl\<close>.
\<close>

datatype call =
    Connect string
  | OpenTable string
  | EmbeddingsCreate string
  | TableSearch "real list" nat
  | ChatCompletionsCreate "(string \<times> string) list"
  | GoogleSearch json

type_synonym 'a io = "call list \<Rightarrow> (error + 'a) \<times> call list"

definition returnIO :: "'a \<Rightarrow> 'a io" where
  "returnIO x = (\<lambda>calls. (Inr x, calls))"

definition throwIO :: "error \<Rightarrow> 'a io" where
  "throwIO e = (\<lambda>calls. (Inl e, calls))"

definition bindIO :: "'a io \<Rightarrow> ('a \<Rightarrow> 'b io) \<Rightarrow> 'b io" where
  "bindIO m f = (\<lambda>calls. case m calls of (Inl e, calls') \<Rightarrow> (Inl e, calls') | (Inr x, calls') \<Rightarrow> f x calls')"

text \<open>\<open>try { m } catch (error) { h error }\<close>\<close>

definition tryCatch :: "'a io \<Rightarrow> (error \<Rightarrow> 'a io) \<Rightarrow> 'a io" where
  "tryCatch m h = (\<lambda>calls. case m calls of (Inl e, calls') \<Rightarrow> h e calls' | (Inr x, calls') \<Rightarrow> (Inr x, calls'))"

text \<open>A synchronous expression that may throw.\<close>

definition liftE :: "error + 'a \<Rightarrow> 'a io" where
  "liftE r = (\<lambda>calls. (r, calls))"

text \<open>One call to a collaborator: it answers from the log so far, and the call is logged.\<close>

definition callExt :: "call \<Rightarrow> (call list \<Rightarrow> error + 'a) \<Rightarrow> 'a io" where
  "callExt c answer = (\<lambda>calls. (answer calls, calls @ [c]))"

section \<open>Collaborators\<close>

text \<open>
  What \<open>googlethis\<close>'s \<open>search\<close> resolves to, as far as the code reads it. A field that is
  \<open>undefined\<close> or \<open>null\<close> is \<open>None\<close>. \<open>kp_info\<close> is \<open>JSON.stringify(kg.info, null, 2)\<close> when
  \<open>kg.info\<close> is truthy.
\<close>

record raw_result =
  raw_title :: "string option"
  raw_url :: "string option"
  raw_description :: "string option"

record knowledge_panel =
  kp_title :: "string option"
  kp_type :: "string option"
  kp_description :: "string option"
  kp_info :: "string option"

record featured_snippet =
  fs_title :: "string option"
  fs_description :: "string option"
  fs_url :: "string option"

record response =
  resp_results :: "raw_result list"
  resp_knowledge_panel :: "knowledge_panel option"
  resp_featured_snippet :: "featured_snippet option"

text \<open>
  The collaborators and the one built-in that is not modelled, \<open>JSON.parse\<close> (a pure
  function: the parsed value, or the \<open>SyntaxError\<close> it throws).
  \<open>chat_completions_create\<close> takes the messages as (role, content) pairs and answers
  \<open>response.choices[0].message.content\<close>, which may be \<open>null\<close>; \<open>embeddings_create\<close> answers
  \<open>response.data[0].embedding\<close>; \<open>table_search\<close> is \<open>table.search(v).limit(k).toArray()\<close>.
\<close>

record env =
  lancedb_connect :: "call list \<Rightarrow> string \<Rightarrow> error + unit"
  db_openTable :: "call list \<Rightarrow> string \<Rightarrow> error + unit"
  embeddings_create :: "call list \<Rightarrow> string \<Rightarrow> error + real list"
  table_search :: "call list \<Rightarrow> real list \<Rightarrow> nat \<Rightarrow> error + chunk list"
  chat_completions_create :: "call list \<Rightarrow> (string \<times> string) list \<Rightarrow> error + string option"
  JSON_parse :: "string \<Rightarrow> error + json"
  google_search :: "call list \<Rightarrow> json \<Rightarrow> error + response"

section \<open>More string built-ins\<close>

text \<open>A non-negative integer in a template literal: its decimal digits.\<close>

fun showNat :: "nat \<Rightarrow> string" where
  "showNat n = (if n < 10 then [char_of (48 + n)] else showNat (n div 10) @ [char_of (48 + n mod 10)])"

declare showNat.simps [simp del]

text \<open>
  White space as \<open>\s\<close> and \<open>trim\<close> see it, on code units below 256: tab, line feed,
  vertical tab, form feed, carriage return, space and the no-break space.
\<close>

definition isSpace :: "char \<Rightarrow> bool" where
  "isSpace c = ((of_char c :: nat) \<in> {9, 10, 11, 12, 13, 32, 160})"

text \<open>The string without the white space at its end.\<close>

definition dropSpaceEnd :: "string \<Rightarrow> string" where
  "dropSpaceEnd s = rev (dropWhile isSpace (rev s))"

definition str_trim :: "string \<Rightarrow> string" where
  "str_trim s = dropSpaceEnd (dropWhile isSpace s)"

text \<open>The first occurrence of \<open>pat\<close> in \<open>s\<close>: what stands before it and what stands after it.\<close>

primrec splitAtFirst :: "string \<Rightarrow> string \<Rightarrow> (string \<times> string) option" where
  "splitAtFirst pat [] = (if pat = [] then Some ([], []) else None)"
| "splitAtFirst pat (c # s) =
     (if prefix pat (c # s) then Some ([], drop (length pat) (c # s))
      else map_option (\<lambda>(before, after). (c # before, after)) (splitAtFirst pat s))"

definition fence :: string where
  "fence = [CHR 0x60, CHR 0x60, CHR 0x60]"

text \<open>
  \<open>content.match(/```(?:json)?\s*([\s\S]*?)\s*```/)\<close>, its group 1, or \<open>None\<close> for no match.
  The match starts at the first fence; \<open>json\<close> is taken when it follows; the greedy \<open>\s*\<close>
  takes all the white space after it; the lazy group runs to the white space before the next
  fence. With no fence after the first one there is no match at any position.
\<close>

definition fencedJson :: "string \<Rightarrow> string option" where
  "fencedJson content =
     (case splitAtFirst fence content of
        None \<Rightarrow> None
      | Some (before, rest) \<Rightarrow>
          (let rest1 = (if prefix ''json'' rest then drop 4 rest else rest);
               rest2 = dropWhile isSpace rest1
           in case splitAtFirst fence rest2 of
                None \<Rightarrow> None
              | Some (body, after) \<Rightarrow> Some (dropSpaceEnd body)))"

text \<open>\<open>xs.map((x, idx) => f(idx, x))\<close> where \<open>f\<close> may throw: the first exception ends the map.\<close>

primrec mapIdxE :: "(nat \<Rightarrow> 'a \<Rightarrow> error + 'b) \<Rightarrow> nat \<Rightarrow> 'a list \<Rightarrow> error + 'b list" where
  "mapIdxE f idx [] = Inr []"
| "mapIdxE f idx (x # xs) =
     (case f idx x of
        Inl e \<Rightarrow> Inl e
      | Inr y \<Rightarrow> (case mapIdxE f (Suc idx) xs of Inl e \<Rightarrow> Inl e | Inr ys \<Rightarrow> Inr (y # ys)))"

text \<open>\<open>xs.map((x, idx) => f(idx, x))\<close> where \<open>f\<close> cannot throw.\<close>

primrec mapIdx :: "(nat \<Rightarrow> 'a \<Rightarrow> 'b) \<Rightarrow> nat \<Rightarrow> 'a list \<Rightarrow> 'b list" where
  "mapIdx f idx [] = []"
| "mapIdx f idx (x # xs) = f idx x # mapIdx f (Suc idx) xs"

definition dquote :: string where
  "dquote = [CHR 0x22]"

section \<open>QueryAnalyzer.evaluateRetrievalQuality\<close>

text \<open>\<open>`[Chunk ${idx + 1}]: ${chunk.text.substring(0, 200)}...`\<close>; a chunk with no text throws.\<close>

definition chunkPreview :: "nat \<Rightarrow> chunk \<Rightarrow> error + string" where
  "chunkPreview idx c =
     (case chunk_text c of
        None \<Rightarrow> Inl (TypeError ''Cannot read properties of undefined (reading 'substring')'')
      | Some t \<Rightarrow> Inr (''[Chunk '' @ showNat (idx + 1) @ '']: '' @ take 200 t @ ''...''))"

definition analysisPrompt :: "string \<Rightarrow> string \<Rightarrow> string" where
  "analysisPrompt query context =
     ''You are a query analyzer for a Retrieval-Augmented Generation (RAG) system.\<newline>''
   @ ''\<newline>''
   @ ''Your task is to evaluate if the retrieved documents are sufficient to answer the user's query.\<newline>''
   @ ''\<newline>''
   @ ''User Query: '' @ dquote @ query @ dquote @ ''\<newline>''
   @ ''\<newline>''
   @ ''Retrieved Documents:\<newline>''
   @ context @ ''\<newline>''
   @ ''\<newline>''
   @ ''Analyze the relevance and completeness of the retrieved documents. Consider:\<newline>''
   @ ''1. Do the documents directly address the query?\<newline>''
   @ ''2. Is there enough information to provide a complete answer?\<newline>''
   @ ''3. Are the documents current and relevant?\<newline>''
   @ ''4. Does the query ask for recent/current information that might not be in the documents?\<newline>''
   @ ''\<newline>''
   @ ''Respond in JSON format with:\<newline>''
   @ ''{\<newline>''
   @ ''  '' @ dquote @ ''relevance_score'' @ dquote @ '': <number 0-10>,\<newline>''
   @ ''  '' @ dquote @ ''is_sufficient'' @ dquote @ '': <boolean>,\<newline>''
   @ ''  '' @ dquote @ ''requires_web_search'' @ dquote @ '': <boolean>,\<newline>''
   @ ''  '' @ dquote @ ''reasoning'' @ dquote @ '': '' @ dquote @ ''<brief explanation>'' @ dquote @ '',\<newline>''
   @ ''  '' @ dquote @ ''suggested_search_query'' @ dquote @ '': '' @ dquote
       @ ''<optimized search query if web search needed, or null>'' @ dquote @ ''\<newline>''
   @ ''}''"

definition analysisMessages :: "string \<Rightarrow> string \<Rightarrow> (string \<times> string) list" where
  "analysisMessages query context =
     [(''system'', ''You are a precise query analyzer. Always respond with valid JSON only.''),
      (''user'', analysisPrompt query context)]"

definition safeDefault :: json where
  "safeDefault =
     JObj
       [(''relevance_score'', JNum 5),
        (''is_sufficient'', JBool True),
        (''requires_web_search'', JBool False),
        (''reasoning'', JStr ''Analysis failed, using retrieved documents only''),
        (''suggested_search_query'', JNull)]"

text \<open>
  The argument of \<open>JSON.parse\<close>: the completion, replaced by group 1 of the match when the
  pattern matches, then trimmed.
\<close>

definition jsonText :: "string \<Rightarrow> string" where
  "jsonText content0 =
     (let content = (case fencedJson content0 of Some group1 \<Rightarrow> group1 | None \<Rightarrow> content0)
      in str_trim content)"

text \<open>
  The body of the \<open>try\<close>. It throws where the source does: on a chunk with no text, when the
  completion call fails, on a \<open>null\<close> content (\<open>content.match\<close>), when \<open>JSON.parse\<close> throws,
  on \<open>analysis.relevance_score\<close> when the parsed value is \<open>null\<close>, and in the lines that
  display the analysis, where \<open>relevance_score\<close>, \<open>reasoning\<close> and (when
  \<open>analysis.requires_web_search && analysis.suggested_search_query\<close> is truthy)
  \<open>suggested_search_query\<close> are converted to strings.
\<close>

definition evaluateTry :: "env \<Rightarrow> string \<Rightarrow> chunk list \<Rightarrow> json io" where
  "evaluateTry env query retrievedChunks =
     bindIO (liftE (mapIdxE chunkPreview 0 retrievedChunks)) (\<lambda>previews.
       let context = arr_join ''\<newline>\<newline>'' previews;
           messages = analysisMessages query context
       in bindIO (callExt (ChatCompletionsCreate messages)
                    (\<lambda>calls. chat_completions_create env calls messages)) (\<lambda>message_content.
          bindIO (case message_content of
                    None \<Rightarrow> throwIO (TypeError ''Cannot read properties of null (reading 'match')'')
                  | Some content \<Rightarrow> returnIO content) (\<lambda>content0.
          bindIO (liftE (JSON_parse env (jsonText content0))) (\<lambda>analysis.
          bindIO (liftE (getProp analysis ''relevance_score'')) (\<lambda>relevance_score.
          bindIO (liftE (templateValue relevance_score)) (\<lambda>shown1.
          bindIO (liftE (getProp analysis ''reasoning'')) (\<lambda>reasoning.
          bindIO (liftE (templateValue reasoning)) (\<lambda>shown2.
          bindIO (liftE (getProp analysis ''requires_web_search'')) (\<lambda>requires_web_search.
          bindIO (liftE (getProp analysis ''suggested_search_query'')) (\<lambda>suggested_search_query.
          bindIO (if truthy requires_web_search \<and> truthy suggested_search_query
                  then liftE (templateValue suggested_search_query)
                  else returnIO ()) (\<lambda>shown3.
          returnIO analysis)))))))))))"

definition evaluateRetrievalQuality :: "env \<Rightarrow> string \<Rightarrow> chunk list \<Rightarrow> json io" where
  "evaluateRetrievalQuality env query retrievedChunks =
     tryCatch (evaluateTry env query retrievedChunks) (\<lambda>error. returnIO safeDefault)"

section \<open>QueryAnalyzer.analyze\<close>

definition analyze :: "env \<Rightarrow> string \<Rightarrow> chunk list \<Rightarrow> bool \<Rightarrow> json io" where
  "analyze env query retrievedChunks useQuick =
     (if useQuick then returnIO (quickAnalysis query retrievedChunks)
      else evaluateRetrievalQuality env query retrievedChunks)"

section \<open>WebSearcher\<close>

text \<open>\<open>v || ''\<close> on a string field that may be absent.\<close>

definition strOrEmpty :: "string option \<Rightarrow> string" where
  "strOrEmpty v = (case v of None \<Rightarrow> [] | Some s \<Rightarrow> s)"

text \<open>\<open>if (v) text += `label${v}\n`\<close>: the line is added when the field is a non-empty string.\<close>

definition fieldLine :: "string \<Rightarrow> string option \<Rightarrow> string" where
  "fieldLine label v =
     (case v of None \<Rightarrow> [] | Some s \<Rightarrow> if s \<noteq> [] then label @ s @ ''\<newline>'' else [])"

text \<open>The object \<open>performSearch\<close> builds for each organic result.\<close>

record web_result =
  wr_title :: string
  wr_link :: string
  wr_description :: string
  wr_snippet :: string
  wr_source :: string

definition toWebResult :: "raw_result \<Rightarrow> web_result" where
  "toWebResult r =
     \<lparr>wr_title = strOrEmpty (raw_title r),
      wr_link = strOrEmpty (raw_url r),
      wr_description = strOrEmpty (raw_description r),
      wr_snippet = strOrEmpty (raw_description r),
      wr_source = ''google''\<rparr>"

text \<open>
  The first statement of the \<open>try\<close> that can throw is the display of
  \<open>`Searching for: "${query}"`\<close>: when the conversion of the query throws, \<open>search\<close> is not
  called.
\<close>

definition performSearch :: "env \<Rightarrow> json \<Rightarrow> nat \<Rightarrow> web_result list io" where
  "performSearch env query numResults =
     tryCatch
       (bindIO (liftE (templateValue (Some query))) (\<lambda>shown.
        bindIO (callExt (GoogleSearch query) (\<lambda>calls. google_search env calls query)) (\<lambda>response.
          let results = map toWebResult (take numResults (resp_results response))
          in if length results = 0 then returnIO [] else returnIO results)))
       (\<lambda>error. returnIO [])"

definition knowledgeGraphText :: "knowledge_panel \<Rightarrow> string" where
  "knowledgeGraphText kg =
     fieldLine ''Title: '' (kp_title kg) @ fieldLine ''Type: '' (kp_type kg)
     @ fieldLine ''Description: '' (kp_description kg) @ fieldLine ''Info: '' (kp_info kg)"

text \<open>The result is the text, or \<open>None\<close> for \<open>null\<close>.\<close>

definition getKnowledgeGraph :: "env \<Rightarrow> json \<Rightarrow> string option io" where
  "getKnowledgeGraph env query =
     tryCatch
       (bindIO (callExt (GoogleSearch query) (\<lambda>calls. google_search env calls query)) (\<lambda>response.
          case resp_knowledge_panel response of
            Some kg \<Rightarrow> returnIO (Some (knowledgeGraphText kg))
          | None \<Rightarrow> returnIO None))
       (\<lambda>error. returnIO None)"

definition featuredSnippetText :: "featured_snippet \<Rightarrow> string" where
  "featuredSnippetText snippet =
     fieldLine ''Title: '' (fs_title snippet) @ fieldLine ''Content: '' (fs_description snippet)
     @ fieldLine ''Source: '' (fs_url snippet)"

definition getFeaturedSnippet :: "env \<Rightarrow> json \<Rightarrow> string option io" where
  "getFeaturedSnippet env query =
     tryCatch
       (bindIO (callExt (GoogleSearch query) (\<lambda>calls. google_search env calls query)) (\<lambda>response.
          case resp_featured_snippet response of
            Some snippet \<Rightarrow> returnIO (Some (featuredSnippetText snippet))
          | None \<Rightarrow> returnIO None))
       (\<lambda>error. returnIO None)"

definition comprehensiveSearch ::
  "env \<Rightarrow> json \<Rightarrow> nat \<Rightarrow> (web_result list \<times> string option \<times> string option) io" where
  "comprehensiveSearch env query numResults =
     bindIO (performSearch env query numResults) (\<lambda>results.
     bindIO (getKnowledgeGraph env query) (\<lambda>knowledgeGraph.
     bindIO (getFeaturedSnippet env query) (\<lambda>featuredSnippet.
     returnIO (results, knowledgeGraph, featuredSnippet))))"

text \<open>One entry of the result list, from its index and the result.\<close>

definition webSourceText :: "nat \<Rightarrow> web_result \<Rightarrow> string" where
  "webSourceText idx r =
     ''[Web Source '' @ showNat (idx + 1) @ '': '' @ wr_title r @ '']\<newline>''
     @ ''URL: '' @ wr_link r @ ''\<newline>''
     @ ''Content: '' @ wr_description r"

text \<open>\<open>if (s)\<close> on a string or \<open>null\<close>: the empty string is falsy.\<close>

definition truthyStr :: "string option \<Rightarrow> bool" where
  "truthyStr v = (case v of None \<Rightarrow> False | Some s \<Rightarrow> s \<noteq> [])"

definition getSearchContext :: "env \<Rightarrow> json \<Rightarrow> nat \<Rightarrow> string io" where
  "getSearchContext env query numResults =
     bindIO (comprehensiveSearch env query numResults) (\<lambda>(results, knowledgeGraph, featuredSnippet).
       let context0 = [];
           context1 = (if truthyStr featuredSnippet
                       then context0 @ ''=== FEATURED SNIPPET ===\<newline>'' @ the featuredSnippet
                            @ ''\<newline>\<newline>''
                       else context0);
           context2 = (if truthyStr knowledgeGraph
                       then context1 @ ''=== KNOWLEDGE GRAPH ===\<newline>'' @ the knowledgeGraph
                            @ ''\<newline>\<newline>''
                       else context1);
           context3 = (if length results > 0
                       then context2 @ ''=== SEARCH RESULTS ===\<newline>\<newline>''
                            @ arr_join ''\<newline>\<newline>---\<newline>\<newline>''
                                (mapIdx webSourceText 0 results)
                       else context2)
       in returnIO context3)"

section \<open>Retriever\<close>

text \<open>The fields of a \<open>Retriever\<close> the code reads.\<close>

record retriever =
  dbPath :: string
  enableCorrectiveRAG :: bool
  useQuickAnalysis :: bool

definition generateQueryEmbedding :: "env \<Rightarrow> string \<Rightarrow> real list io" where
  "generateQueryEmbedding env query =
     tryCatch (callExt (EmbeddingsCreate query) (\<lambda>calls. embeddings_create env calls query))
       (\<lambda>error. throwIO error)"

text \<open>
  The body of the display loop that can throw: \<open>result.text.substring(0, 200)\<close> on a row
  with no text.
\<close>

definition displayChunk :: "chunk \<Rightarrow> error + unit" where
  "displayChunk c =
     (case chunk_text c of
        None \<Rightarrow> Inl (TypeError ''Cannot read properties of undefined (reading 'substring')'')
      | Some t \<Rightarrow> Inr ())"

text \<open>\<open>xs.forEach(f)\<close> where \<open>f\<close> may throw.\<close>

primrec forEachE :: "('a \<Rightarrow> error + unit) \<Rightarrow> 'a list \<Rightarrow> error + unit" where
  "forEachE f [] = Inr ()"
| "forEachE f (x # xs) = (case f x of Inl e \<Rightarrow> Inl e | Inr u \<Rightarrow> forEachE f xs)"

definition searchSimilarDocuments :: "env \<Rightarrow> retriever \<Rightarrow> string \<Rightarrow> nat \<Rightarrow> chunk list io" where
  "searchSimilarDocuments env this query topK =
     tryCatch
       (bindIO (callExt (Connect (dbPath this)) (\<lambda>calls. lancedb_connect env calls (dbPath this))) (\<lambda>db.
        bindIO (callExt (OpenTable ''documents'') (\<lambda>calls. db_openTable env calls ''documents'')) (\<lambda>table.
        bindIO (generateQueryEmbedding env query) (\<lambda>queryEmbedding.
        bindIO (callExt (TableSearch queryEmbedding topK)
                  (\<lambda>calls. table_search env calls queryEmbedding topK)) (\<lambda>results.
        bindIO (liftE (forEachE displayChunk results)) (\<lambda>u.
        returnIO results))))))
       (\<lambda>error. throwIO error)"

text \<open>
  What \<open>retrieveContext\<close> returns. \<open>localContext\<close> and \<open>webContext\<close> are absent from the
  object returned when corrective RAG is off; \<open>webResults\<close> is \<open>{ searchQuery, context }\<close>.
\<close>

record retrieved =
  ret_context :: string
  ret_localContext :: "string option"
  ret_webContext :: "string option"
  ret_chunks :: "chunk list"
  ret_webResults :: "(json \<times> string) option"
  ret_analysis :: "json option"

text \<open>
  \<open>localResults.map((result) => result.text).join("\n\n")\<close>: \<open>join\<close> writes an element that
  is \<open>undefined\<close> as the empty string.
\<close>

definition localSection :: "chunk list \<Rightarrow> string" where
  "localSection localResults =
     arr_join ''\<newline>\<newline>'' (map (\<lambda>result. strOrEmpty (chunk_text result)) localResults)"

definition combinedContext :: "string \<Rightarrow> string \<Rightarrow> string" where
  "combinedContext localContext webContext =
     ''=== LOCAL DOCUMENT CONTEXT ===\<newline>''
     @ ''\<newline>''
     @ localContext @ ''\<newline>''
     @ ''\<newline>''
     @ ''=== WEB SEARCH CONTEXT (Additional Information) ===\<newline>''
     @ ''\<newline>''
     @ webContext"

text \<open>
  Steps 3 and 4 of \<open>retrieveContext\<close> (from \<open>const searchQuery\<close> to the \<open>return\<close>), as a
  function of the variables in scope there: the query, the local results, the local context
  and the analyzer's verdict.
\<close>

definition fuseContext :: "env \<Rightarrow> string \<Rightarrow> chunk list \<Rightarrow> string \<Rightarrow> json \<Rightarrow> retrieved io" where
  "fuseContext env query localResults localContext analysis =
     bindIO (liftE (getProp analysis ''suggested_search_query'')) (\<lambda>suggested.
       let searchQuery = orElse suggested (JStr query)
       in bindIO (getSearchContext env searchQuery 3) (\<lambda>webContext.
          returnIO
            \<lparr>ret_context = combinedContext localContext webContext,
             ret_localContext = Some localContext,
             ret_webContext = Some webContext,
             ret_chunks = localResults,
             ret_webResults = Some (searchQuery, webContext),
             ret_analysis = Some analysis\<rparr>))"

definition retrieveContext :: "env \<Rightarrow> retriever \<Rightarrow> string \<Rightarrow> nat \<Rightarrow> retrieved io" where
  "retrieveContext env this query topK =
     bindIO (searchSimilarDocuments env this query topK) (\<lambda>localResults.
       let localContext = localSection localResults
       in if \<not> enableCorrectiveRAG this
          then returnIO
                 \<lparr>ret_context = localContext,
                  ret_localContext = None,
                  ret_webContext = None,
                  ret_chunks = localResults,
                  ret_webResults = None,
                  ret_analysis = None\<rparr>
          else bindIO (analyze env query localResults (useQuickAnalysis this)) (\<lambda>analysis.
               fuseContext env query localResults localContext analysis))"

section \<open>The calls of a web search\<close>

text \<open>
  The calls \<open>getSearchContext\<close> logs for a query: \<open>performSearch\<close> calls \<open>search\<close> unless
  the display of the query throws, \<open>getKnowledgeGraph\<close> and \<open>getFeaturedSnippet\<close> call it
  once each.
\<close>

definition searchCalls :: "json \<Rightarrow> call list" where
  "searchCalls q = replicate (if stringThrows q then 2 else 3) (GoogleSearch q)"

section \<open>The contract of the vector index\<close>

text \<open>
  The ordered-search contract of the vector index, for an index of \<open>N\<close> rows: a search that
  answers gives the \<open>k\<close> nearest rows it has, closest first.
\<close>

definition honoursContract :: "env \<Rightarrow> nat \<Rightarrow> bool" where
  "honoursContract env N =
     (\<forall>calls v k rows. table_search env calls v k = Inr rows
        \<longrightarrow> length rows = min k N \<and> sorted (map chunk_distance rows))"

section \<open>The layout of the fused context, in the spec's words\<close>

text \<open>Strings joined with a separator: the first, then each further one after the separator.\<close>

definition specJoin :: "string \<Rightarrow> string list \<Rightarrow> string" where
  "specJoin sep xs = (case xs of [] \<Rightarrow> [] | x # ys \<Rightarrow> x @ concat (map (\<lambda>y. sep @ y) ys))"

text \<open>
  The entry of the web result numbered \<open>i\<close>: \<open>[Web Source i: title]\<close>, \<open>URL: url\<close>,
  \<open>Content: snippet\<close>, one line each.
\<close>

definition specWebEntry :: "nat \<Rightarrow> web_result \<Rightarrow> string" where
  "specWebEntry i r =
     ''[Web Source '' @ showNat i @ '': '' @ wr_title r @ '']'' @ ''\<newline>''
     @ ''URL: '' @ wr_link r @ ''\<newline>''
     @ ''Content: '' @ wr_snippet r"

text \<open>
  The web section: the featured snippet if there is one, then the knowledge panel if there
  is one, then the web results numbered from 1, joined by the separator line. Each part
  comes under the heading the code gives it.
\<close>

definition specWebSection :: "string option \<Rightarrow> string option \<Rightarrow> web_result list \<Rightarrow> string" where
  "specWebSection featured panel results =
     (case featured of
        None \<Rightarrow> []
      | Some fs \<Rightarrow> if fs = [] then [] else ''=== FEATURED SNIPPET ===\<newline>'' @ fs @ ''\<newline>\<newline>'')
     @ (case panel of
          None \<Rightarrow> []
        | Some kg \<Rightarrow> if kg = [] then [] else ''=== KNOWLEDGE GRAPH ===\<newline>'' @ kg @ ''\<newline>\<newline>'')
     @ (if results = [] then []
        else ''=== SEARCH RESULTS ===\<newline>\<newline>''
             @ specJoin ''\<newline>\<newline>---\<newline>\<newline>''
                 (map (\<lambda>i. specWebEntry (i + 1) (results ! i)) [0..<length results]))"

text \<open>The local section: the chunks' texts in the order of the list, a blank line between them.\<close>

definition specLocalSection :: "chunk list \<Rightarrow> string" where
  "specLocalSection localResults =
     specJoin ''\<newline>\<newline>'' (map (\<lambda>c. strOrEmpty (chunk_text c)) localResults)"

section \<open>A concrete environment\<close>

text \<open>
  An index of three rows, a search response, and collaborators that answer from them. The
  completion is not JSON; the web search is reachable or not. \<open>demoParse\<close> agrees with
  \<open>JSON.parse\<close> on the texts the examples give it.
\<close>

definition demoChunks :: "chunk list" where
  "demoChunks =
     [\<lparr>chunk_text = Some ''alpha'', chunk_contentType = Some ''text'',
        chunk_pageNumber = Some 1, chunk_distance = 1\<rparr>,
      \<lparr>chunk_text = Some ''beta'', chunk_contentType = Some ''image'',
        chunk_pageNumber = None, chunk_distance = 2\<rparr>,
      \<lparr>chunk_text = Some ''gamma'', chunk_contentType = None,
        chunk_pageNumber = Some 7, chunk_distance = 2\<rparr>]"

definition demoResponse :: response where
  "demoResponse =
     \<lparr>resp_results =
        [\<lparr>raw_title = Some ''T1'', raw_url = Some ''http://a'', raw_description = Some ''D1''\<rparr>,
         \<lparr>raw_title = Some ''T2'', raw_url = None, raw_description = Some ''D2''\<rparr>],
      resp_knowledge_panel =
        Some \<lparr>kp_title = Some ''KT'', kp_type = None, kp_description = Some ''KD'', kp_info = None\<rparr>,
      resp_featured_snippet =
        Some \<lparr>fs_title = Some ''FT'', fs_description = Some ''FD'', fs_url = None\<rparr>\<rparr>"

definition demoParse :: "string \<Rightarrow> error + json" where
  "demoParse s =
     (if s = ''null'' then Inr JNull
      else if s = ''{}'' then Inr (JObj [])
      else Inl (SyntaxError ''Unexpected token''))"

definition demoEnv :: "bool \<Rightarrow> env" where
  "demoEnv online =
     \<lparr>lancedb_connect = (\<lambda>calls path. Inr ()),
      db_openTable = (\<lambda>calls name. Inr ()),
      embeddings_create = (\<lambda>calls input. Inr [1, 0]),
      table_search = (\<lambda>calls v k. Inr (take k demoChunks)),
      chat_completions_create = (\<lambda>calls messages. Inr (Some ''I cannot help'')),
      JSON_parse = demoParse,
      google_search =
        (\<lambda>calls q. if online then Inr demoResponse else Inl (Error ''fetch failed''))\<rparr>"

text \<open>A verdict whose suggested query is the empty string.\<close>

definition emptySuggestion :: json where
  "emptySuggestion =
     JObj
       [(''relevance_score'', JNum 3),
        (''is_sufficient'', JBool False),
        (''requires_web_search'', JBool True),
        (''reasoning'', JStr ''The documents do not cover the question''),
        (''suggested_search_query'', JStr [])]"

definition demoRetriever :: retriever where
  "demoRetriever = \<lparr>dbPath = ''./lancedb'', enableCorrectiveRAG = True, useQuickAnalysis = False\<rparr>"

section \<open>Properties of the built-ins\<close>

lemma str_includes_iff: "str_includes s t \<longleftrightarrow> (\<exists>p q. s = p @ t @ q)"
proof (induction s)
  case Nil
  then show ?case by auto
next
  case (Cons c s)
  have "sublist t (c # s) \<longleftrightarrow> prefix t (c # s) \<or> sublist t s"
    by (rule sublist_Cons_right)
  with Cons show ?case
    by (simp add: sublist_def)
qed

lemma arr_some_iff: "arr_some p xs \<longleftrightarrow> (\<exists>x \<in> set xs. p x)"
  by (induction xs) auto

lemma arr_reduce_sum: "arr_reduce (\<lambda>sum c. sum + f c) acc xs = acc + sum_list (map f xs)"
  by (induction xs arbitrary: acc) (auto simp: add.assoc)

section \<open>Every step after retrieval returns\<close>

lemma performSearch_returns:
  "\<exists>results. performSearch env q n lg
      = (Inr results, lg @ (if stringThrows q then [] else [GoogleSearch q]))"
  by (cases "google_search env lg q")
     (simp_all add: performSearch_def tryCatch_def bindIO_def callExt_def returnIO_def liftE_def
        templateValue_def Let_def)

lemma getKnowledgeGraph_returns:
  "\<exists>kg. getKnowledgeGraph env q lg = (Inr kg, lg @ [GoogleSearch q])"
  by (cases "google_search env lg q")
     (simp_all add: getKnowledgeGraph_def tryCatch_def bindIO_def callExt_def returnIO_def
        split: option.splits)

lemma getFeaturedSnippet_returns:
  "\<exists>fs. getFeaturedSnippet env q lg = (Inr fs, lg @ [GoogleSearch q])"
  by (cases "google_search env lg q")
     (simp_all add: getFeaturedSnippet_def tryCatch_def bindIO_def callExt_def returnIO_def
        split: option.splits)

lemma searchCalls_split:
  "(lg @ (if stringThrows q then [] else [GoogleSearch q])) @ [GoogleSearch q] @ [GoogleSearch q]
     = lg @ searchCalls q"
  by (simp add: searchCalls_def numeral_2_eq_2 numeral_3_eq_3)

lemma comprehensiveSearch_returns:
  "\<exists>results kg fs lg1 lg2.
     performSearch env q n lg = (Inr results, lg1)
     \<and> getKnowledgeGraph env q lg1 = (Inr kg, lg2)
     \<and> getFeaturedSnippet env q lg2 = (Inr fs, lg @ searchCalls q)
     \<and> comprehensiveSearch env q n lg = (Inr (results, kg, fs), lg @ searchCalls q)"
proof -
  define lg1 where "lg1 = lg @ (if stringThrows q then [] else [GoogleSearch q])"
  define lg2 where "lg2 = lg1 @ [GoogleSearch q]"
  obtain results where r: "performSearch env q n lg = (Inr results, lg1)"
    unfolding lg1_def using performSearch_returns by blast
  obtain kg where k: "getKnowledgeGraph env q lg1 = (Inr kg, lg2)"
    unfolding lg2_def using getKnowledgeGraph_returns by blast
  obtain fs where "getFeaturedSnippet env q lg2 = (Inr fs, lg2 @ [GoogleSearch q])"
    using getFeaturedSnippet_returns by blast
  moreover have "lg2 @ [GoogleSearch q] = lg @ searchCalls q"
    using searchCalls_split [of lg q] by (simp add: lg1_def lg2_def)
  ultimately have f: "getFeaturedSnippet env q lg2 = (Inr fs, lg @ searchCalls q)"
    by simp
  from r k f have "comprehensiveSearch env q n lg = (Inr (results, kg, fs), lg @ searchCalls q)"
    by (simp add: comprehensiveSearch_def bindIO_def returnIO_def)
  with r k f show ?thesis by blast
qed

lemma getSearchContext_returns:
  "\<exists>webContext. getSearchContext env q n lg = (Inr webContext, lg @ searchCalls q)"
proof -
  obtain results kg fs where "comprehensiveSearch env q n lg
         = (Inr (results, kg, fs), lg @ searchCalls q)"
    using comprehensiveSearch_returns by blast
  then show ?thesis
    by (simp add: getSearchContext_def bindIO_def returnIO_def Let_def)
qed

lemma searchCalls_JStr: "searchCalls (JStr s) = replicate 3 (GoogleSearch (JStr s))"
  by (simp add: searchCalls_def)

lemma getProp_not_null: "v \<noteq> JNull \<Longrightarrow> \<exists>p. getProp v k = Inr p"
  by (cases v) simp_all

lemma getProp_Inr_not_null: "getProp v k = Inr p \<Longrightarrow> v \<noteq> JNull"
  by (cases v) simp_all

lemma evaluateTry_not_null:
  "evaluateTry env query chunks lg = (Inr v, lg') \<Longrightarrow> v \<noteq> JNull"
  by (auto simp: evaluateTry_def bindIO_def liftE_def callExt_def returnIO_def throwIO_def Let_def
      split: sum.splits option.splits prod.splits dest: getProp_Inr_not_null)

lemma safeDefault_not_null: "safeDefault \<noteq> JNull"
  by (simp add: safeDefault_def)

lemma evaluateRetrievalQuality_returns:
  "\<exists>v lg'. evaluateRetrievalQuality env query chunks lg = (Inr v, lg') \<and> v \<noteq> JNull"
proof (cases "evaluateTry env query chunks lg")
  case (Pair r lg')
  show ?thesis
  proof (cases r)
    case (Inl e)
    with Pair show ?thesis
      by (simp add: evaluateRetrievalQuality_def tryCatch_def returnIO_def safeDefault_not_null)
  next
    case (Inr v)
    with Pair evaluateTry_not_null [of env query chunks lg v lg'] show ?thesis
      by (simp add: evaluateRetrievalQuality_def tryCatch_def)
  qed
qed

lemma analyze_returns:
  "\<exists>v lg'. analyze env query chunks useQuick lg = (Inr v, lg') \<and> v \<noteq> JNull"
proof (cases useQuick)
  case True
  then show ?thesis
    by (simp add: analyze_def returnIO_def quickAnalysis_def Let_def)
next
  case False
  with evaluateRetrievalQuality_returns [of env query chunks lg] show ?thesis
    by (simp add: analyze_def)
qed

lemma fuseContext_returns:
  assumes "getProp analysis ''suggested_search_query'' = Inr suggested"
  shows "\<exists>webContext.
     getSearchContext env (orElse suggested (JStr query)) 3 lg
       = (Inr webContext, lg @ searchCalls (orElse suggested (JStr query)))
     \<and> fuseContext env query localResults localContext analysis lg
       = (Inr \<lparr>ret_context = combinedContext localContext webContext,
                ret_localContext = Some localContext,
                ret_webContext = Some webContext,
                ret_chunks = localResults,
                ret_webResults = Some (orElse suggested (JStr query), webContext),
                ret_analysis = Some analysis\<rparr>,
          lg @ searchCalls (orElse suggested (JStr query)))"
proof -
  obtain webContext where "getSearchContext env (orElse suggested (JStr query)) 3 lg
      = (Inr webContext, lg @ searchCalls (orElse suggested (JStr query)))"
    using getSearchContext_returns by blast
  with assms show ?thesis
    by (simp add: fuseContext_def bindIO_def liftE_def returnIO_def Let_def)
qed

section \<open>The heuristic verdict\<close>

text \<open>
  C1. For every query and every list of chunks, the verdict of \<open>quickAnalysis\<close> has
  \<open>requires_web_search\<close> true exactly when the lowercased query contains one of the web
  indicators or the lengths of the chunks' texts (0 for a chunk with no text) sum to less
  than 100; \<open>relevance_score\<close> is 4 then and 7 otherwise, \<open>is_sufficient\<close> is the negation,
  and \<open>suggested_search_query\<close> is the query then and \<open>null\<close> otherwise.
\<close>

theorem quickAnalysis_verdict:
  fixes query :: string and chunks :: "chunk list"
  defines "requiresWeb \<equiv>
     (\<exists>k \<in> set webIndicators. \<exists>p q. toLowerCase query = p @ k @ q)
     \<or> sum_list (map textLength chunks) < 100"
  shows "getProp (quickAnalysis query chunks) ''requires_web_search'' = Inr (Some (JBool requiresWeb))
    \<and> getProp (quickAnalysis query chunks) ''relevance_score''
        = Inr (Some (JNum (if requiresWeb then 4 else 7)))
    \<and> getProp (quickAnalysis query chunks) ''is_sufficient'' = Inr (Some (JBool (\<not> requiresWeb)))
    \<and> getProp (quickAnalysis query chunks) ''suggested_search_query''
        = Inr (Some (if requiresWeb then JStr query else JNull))"
proof -
  have "arr_some (\<lambda>indicator. str_includes (toLowerCase query) indicator) webIndicators
        \<or> arr_reduce (\<lambda>sum c. sum + textLength c) 0 chunks < 100 \<longleftrightarrow> requiresWeb"
    unfolding requiresWeb_def by (simp add: arr_some_iff str_includes_iff arr_reduce_sum)
  then show ?thesis
    by (auto simp: quickAnalysis_def Let_def)
qed

theorem quickAnalysis_verdict_witness:
  "getProp (quickAnalysis ''What are the latest AI trends in 2025?'' demoChunks) ''suggested_search_query''
     = Inr (Some (JStr ''What are the latest AI trends in 2025?''))
   \<and> getProp (quickAnalysis ''What are the latest AI trends in 2025?'' demoChunks) ''relevance_score''
     = Inr (Some (JNum 4))"
proof -
  have "sum_list (map textLength demoChunks) < 100"
    by (simp add: demoChunks_def textLength_def)
  then show ?thesis
    using quickAnalysis_verdict [of "''What are the latest AI trends in 2025?''" demoChunks]
    by simp
qed

text \<open>
  C9. The heuristic strategy is deterministic and calls no collaborator: selected through
  \<open>analyze\<close>, it returns the verdict \<open>quickAnalysis query chunks\<close> whatever the environment
  and whatever was called before, so two invocations on the same query and chunks return
  equal verdicts, and it leaves the log of calls as it found it.
\<close>

theorem quickAnalysis_deterministic:
  "analyze env query chunks True lg = (Inr (quickAnalysis query chunks), lg)
   \<and> fst (analyze env query chunks True lg) = fst (analyze env' query chunks True lg')
   \<and> snd (analyze env query chunks True lg) = lg"
  by (simp add: analyze_def returnIO_def)

theorem quickAnalysis_deterministic_witness:
  "fst (analyze (demoEnv True) ''hello'' demoChunks True [])
     = fst (analyze (demoEnv False) ''hello'' demoChunks True [GoogleSearch (JStr ''x'')])
   \<and> snd (analyze (demoEnv True) ''hello'' demoChunks True []) = []"
  using quickAnalysis_deterministic [of "demoEnv True" "''hello''" demoChunks "[]" "demoEnv False"
      "[GoogleSearch (JStr ''x'')]"]
  by blast

section \<open>The safe default of the LLM-based strategy\<close>

text \<open>
  C3. When the completion call fails, or answers a completion whose text (after the fence
  extraction and the trim) \<open>JSON.parse\<close> rejects, \<open>evaluateRetrievalQuality\<close> does not throw:
  it returns the safe default verdict, with \<open>relevance_score\<close> 5, \<open>is_sufficient\<close> true,
  \<open>requires_web_search\<close> false and \<open>suggested_search_query\<close> \<open>null\<close>. (The completion is
  requested for the prompt built from the chunks' previews.)
\<close>

theorem evaluateRetrievalQuality_safe_default:
  assumes previews: "mapIdxE chunkPreview 0 chunks = Inr previews"
    and fails:
      "(\<exists>e. chat_completions_create env lg
               (analysisMessages query (arr_join ''\<newline>\<newline>'' previews)) = Inl e)
       \<or> (\<exists>content e. chat_completions_create env lg
               (analysisMessages query (arr_join ''\<newline>\<newline>'' previews)) = Inr (Some content)
             \<and> JSON_parse env (jsonText content) = Inl e)"
  shows "\<exists>v. fst (evaluateRetrievalQuality env query chunks lg) = Inr v
     \<and> v = safeDefault
     \<and> getProp v ''relevance_score'' = Inr (Some (JNum 5))
     \<and> getProp v ''is_sufficient'' = Inr (Some (JBool True))
     \<and> getProp v ''requires_web_search'' = Inr (Some (JBool False))
     \<and> getProp v ''suggested_search_query'' = Inr (Some JNull)"
proof -
  from fails have "\<exists>e lg'. evaluateTry env query chunks lg = (Inl e, lg')"
    using previews
    by (auto simp: evaluateTry_def bindIO_def liftE_def callExt_def returnIO_def Let_def)
  then have "fst (evaluateRetrievalQuality env query chunks lg) = Inr safeDefault"
    by (auto simp: evaluateRetrievalQuality_def tryCatch_def returnIO_def)
  then show ?thesis
    by (simp add: safeDefault_def)
qed

theorem evaluateRetrievalQuality_safe_default_witness:
  "fst (evaluateRetrievalQuality (demoEnv True) ''hello'' demoChunks []) = Inr safeDefault"
proof -
  have p: "mapIdxE chunkPreview 0 demoChunks = Inr
      [''[Chunk 1]: alpha...'', ''[Chunk 2]: beta...'', ''[Chunk 3]: gamma...'']"
    by code_simp
  have j: "JSON_parse (demoEnv True) (jsonText ''I cannot help'') = Inl (SyntaxError ''Unexpected token'')"
    by code_simp
  have c: "chat_completions_create (demoEnv True) [] msgs = Inr (Some ''I cannot help'')" for msgs
    by (simp add: demoEnv_def)
  show ?thesis
    using evaluateRetrievalQuality_safe_default [OF p, of "demoEnv True" "[]" "''hello''"] j c
    by blast
qed

section \<open>Fusion\<close>

lemma combinedContext_headers:
  "\<exists>p m s. combinedContext localContext webContext
      = p @ ''LOCAL DOCUMENT CONTEXT'' @ m @ ''WEB SEARCH CONTEXT'' @ s"
proof -
  have "combinedContext localContext webContext
      = ''=== '' @ ''LOCAL DOCUMENT CONTEXT''
        @ ('' ===\<newline>\<newline>'' @ localContext @ ''\<newline>\<newline>=== '')
        @ ''WEB SEARCH CONTEXT'' @ ('' (Additional Information) ===\<newline>\<newline>'' @ webContext)"
    by (simp add: combinedContext_def)
  then show ?thesis by blast
qed

lemma searchCalls_replicate:
  "\<exists>n. searchCalls q = replicate n (GoogleSearch q) \<and> 2 \<le> n \<and> n \<le> 3"
  by (auto simp: searchCalls_def)

lemma retrieveContext_returns:
  assumes "searchSimilarDocuments env this query topK lg = (Inr rows, lg1)"
    and "enableCorrectiveRAG this"
  shows "\<exists>analysis lg2 suggested web.
      analyze env query rows (useQuickAnalysis this) lg1 = (Inr analysis, lg2)
    \<and> getProp analysis ''suggested_search_query'' = Inr suggested
    \<and> retrieveContext env this query topK lg
        = (Inr \<lparr>ret_context = combinedContext (localSection rows) web,
                 ret_localContext = Some (localSection rows),
                 ret_webContext = Some web,
                 ret_chunks = rows,
                 ret_webResults = Some (orElse suggested (JStr query), web),
                 ret_analysis = Some analysis\<rparr>,
           lg2 @ searchCalls (orElse suggested (JStr query)))"
proof -
  obtain analysis lg2 where a: "analyze env query rows (useQuickAnalysis this) lg1
      = (Inr analysis, lg2)" and n: "analysis \<noteq> JNull"
    using analyze_returns by blast
  from n obtain suggested where g: "getProp analysis ''suggested_search_query'' = Inr suggested"
    using getProp_not_null by blast
  from fuseContext_returns [OF g, of env query lg2 rows "localSection rows"]
  obtain web where f: "fuseContext env query rows (localSection rows) analysis lg2
     = (Inr \<lparr>ret_context = combinedContext (localSection rows) web,
              ret_localContext = Some (localSection rows),
              ret_webContext = Some web,
              ret_chunks = rows,
              ret_webResults = Some (orElse suggested (JStr query), web),
              ret_analysis = Some analysis\<rparr>,
        lg2 @ searchCalls (orElse suggested (JStr query)))"
    by blast
  from assms a f have "retrieveContext env this query topK lg
     = (Inr \<lparr>ret_context = combinedContext (localSection rows) web,
              ret_localContext = Some (localSection rows),
              ret_webContext = Some web,
              ret_chunks = rows,
              ret_webResults = Some (orElse suggested (JStr query), web),
              ret_analysis = Some analysis\<rparr>,
        lg2 @ searchCalls (orElse suggested (JStr query)))"
    by (simp add: retrieveContext_def bindIO_def Let_def)
  with a g show ?thesis by blast
qed

text \<open>
  C2. For every query, every list of local chunks and every verdict the analyzer can hand
  over (any value but \<open>null\<close>, whatever its \<open>requires_web_search\<close>), the fusion step of
  \<open>retrieveContext\<close> calls the web search, two or three times with one and the same query
  (\<open>performSearch\<close> does not call it when the display of the query throws), and returns a
  combined context that has the header LOCAL DOCUMENT CONTEXT and, later, the header WEB
  SEARCH CONTEXT. So does \<open>retrieveContext\<close> itself, with corrective RAG enabled, whenever
  its retrieval step returns rows: after the analyzer's calls it calls the web search, and the
  context it returns has the two headers in that order.
\<close>

theorem fuseContext_always_searches:
  "(analysis \<noteq> JNull \<longrightarrow>
      (\<exists>r searchQuery n p m s.
          fuseContext env query localResults (localSection localResults) analysis lg
            = (Inr r, lg @ replicate n (GoogleSearch searchQuery))
        \<and> 2 \<le> n \<and> n \<le> 3
        \<and> ret_context r = p @ ''LOCAL DOCUMENT CONTEXT'' @ m @ ''WEB SEARCH CONTEXT'' @ s))
   \<and> (enableCorrectiveRAG this
        \<and> searchSimilarDocuments env this query topK lg = (Inr rows, lg1) \<longrightarrow>
      (\<exists>verdict lg2 r searchQuery n p m s.
          analyze env query rows (useQuickAnalysis this) lg1 = (Inr verdict, lg2)
        \<and> retrieveContext env this query topK lg
            = (Inr r, lg2 @ replicate n (GoogleSearch searchQuery))
        \<and> 2 \<le> n \<and> n \<le> 3
        \<and> ret_analysis r = Some verdict
        \<and> ret_context r = p @ ''LOCAL DOCUMENT CONTEXT'' @ m @ ''WEB SEARCH CONTEXT'' @ s))"
proof (intro conjI impI)
  assume "analysis \<noteq> JNull"
  then obtain suggested where "getProp analysis ''suggested_search_query'' = Inr suggested"
    using getProp_not_null by blast
  from fuseContext_returns [OF this, of env query lg localResults "localSection localResults"]
  obtain webContext where f: "fuseContext env query localResults (localSection localResults) analysis lg
       = (Inr \<lparr>ret_context = combinedContext (localSection localResults) webContext,
                ret_localContext = Some (localSection localResults),
                ret_webContext = Some webContext,
                ret_chunks = localResults,
                ret_webResults = Some (orElse suggested (JStr query), webContext),
                ret_analysis = Some analysis\<rparr>,
          lg @ searchCalls (orElse suggested (JStr query)))"
    by blast
  define r where "r = \<lparr>ret_context = combinedContext (localSection localResults) webContext,
                ret_localContext = Some (localSection localResults),
                ret_webContext = Some webContext,
                ret_chunks = localResults,
                ret_webResults = Some (orElse suggested (JStr query), webContext),
                ret_analysis = Some analysis\<rparr>"
  define sq where "sq = orElse suggested (JStr query)"
  obtain n where n: "searchCalls sq = replicate n (GoogleSearch sq)" "2 \<le> n" "n \<le> 3"
    using searchCalls_replicate by blast
  obtain p m s where c: "combinedContext (localSection localResults) webContext
      = p @ ''LOCAL DOCUMENT CONTEXT'' @ m @ ''WEB SEARCH CONTEXT'' @ s"
    using combinedContext_headers by blast
  have "ret_context r = combinedContext (localSection localResults) webContext"
    by (simp add: r_def)
  with c have 1: "ret_context r = p @ ''LOCAL DOCUMENT CONTEXT'' @ m @ ''WEB SEARCH CONTEXT'' @ s"
    by (simp only:)
  from f n(1) have 2: "fuseContext env query localResults (localSection localResults) analysis lg
        = (Inr r, lg @ replicate n (GoogleSearch sq))"
    by (simp only: r_def sq_def)
  from 1 2 n(2,3) show "\<exists>r searchQuery n p m s.
          fuseContext env query localResults (localSection localResults) analysis lg
            = (Inr r, lg @ replicate n (GoogleSearch searchQuery))
        \<and> 2 \<le> n \<and> n \<le> 3
        \<and> ret_context r = p @ ''LOCAL DOCUMENT CONTEXT'' @ m @ ''WEB SEARCH CONTEXT'' @ s"
    by blast
next
  assume "enableCorrectiveRAG this
        \<and> searchSimilarDocuments env this query topK lg = (Inr rows, lg1)"
  then have e: "enableCorrectiveRAG this"
    and d: "searchSimilarDocuments env this query topK lg = (Inr rows, lg1)"
    by simp_all
  from retrieveContext_returns [OF d e]
  obtain verdict lg2 suggested web where
    a: "analyze env query rows (useQuickAnalysis this) lg1 = (Inr verdict, lg2)"
    and f: "retrieveContext env this query topK lg
        = (Inr \<lparr>ret_context = combinedContext (localSection rows) web,
                 ret_localContext = Some (localSection rows),
                 ret_webContext = Some web,
                 ret_chunks = rows,
                 ret_webResults = Some (orElse suggested (JStr query), web),
                 ret_analysis = Some verdict\<rparr>,
           lg2 @ searchCalls (orElse suggested (JStr query)))"
    by blast
  define r where "r = \<lparr>ret_context = combinedContext (localSection rows) web,
                 ret_localContext = Some (localSection rows),
                 ret_webContext = Some web,
                 ret_chunks = rows,
                 ret_webResults = Some (orElse suggested (JStr query), web),
                 ret_analysis = Some verdict\<rparr>"
  define sq where "sq = orElse suggested (JStr query)"
  obtain n where n: "searchCalls sq = replicate n (GoogleSearch sq)" "2 \<le> n" "n \<le> 3"
    using searchCalls_replicate by blast
  obtain p m s where c: "combinedContext (localSection rows) web
      = p @ ''LOCAL DOCUMENT CONTEXT'' @ m @ ''WEB SEARCH CONTEXT'' @ s"
    using combinedContext_headers by blast
  have "ret_context r = combinedContext (localSection rows) web"
    by (simp add: r_def)
  with c have 1: "ret_context r = p @ ''LOCAL DOCUMENT CONTEXT'' @ m @ ''WEB SEARCH CONTEXT'' @ s"
    by (simp only:)
  have 3: "ret_analysis r = Some verdict"
    by (simp add: r_def)
  from f n(1) have 2: "retrieveContext env this query topK lg
        = (Inr r, lg2 @ replicate n (GoogleSearch sq))"
    by (simp only: r_def sq_def)
  from a 1 2 3 n(2,3) show "\<exists>verdict lg2 r searchQuery n p m s.
          analyze env query rows (useQuickAnalysis this) lg1 = (Inr verdict, lg2)
        \<and> retrieveContext env this query topK lg
            = (Inr r, lg2 @ replicate n (GoogleSearch searchQuery))
        \<and> 2 \<le> n \<and> n \<le> 3
        \<and> ret_analysis r = Some verdict
        \<and> ret_context r = p @ ''LOCAL DOCUMENT CONTEXT'' @ m @ ''WEB SEARCH CONTEXT'' @ s"
    by blast
qed

theorem fuseContext_always_searches_witness:
  "(\<exists>r searchQuery n p m s.
       fuseContext (demoEnv True) ''Summarize section 2'' demoChunks (localSection demoChunks)
           safeDefault []
         = (Inr r, [] @ replicate n (GoogleSearch searchQuery))
     \<and> 2 \<le> n \<and> n \<le> 3
     \<and> ret_context r = p @ ''LOCAL DOCUMENT CONTEXT'' @ m @ ''WEB SEARCH CONTEXT'' @ s)
   \<and> (\<exists>verdict lg2 r searchQuery n p m s.
       analyze (demoEnv True) ''Summarize section 2'' demoChunks (useQuickAnalysis demoRetriever)
           [Connect ''./lancedb'', OpenTable ''documents'',
            EmbeddingsCreate ''Summarize section 2'', TableSearch [1, 0] 3]
         = (Inr verdict, lg2)
     \<and> retrieveContext (demoEnv True) demoRetriever ''Summarize section 2'' 3 []
         = (Inr r, lg2 @ replicate n (GoogleSearch searchQuery))
     \<and> 2 \<le> n \<and> n \<le> 3
     \<and> ret_analysis r = Some verdict
     \<and> ret_context r = p @ ''LOCAL DOCUMENT CONTEXT'' @ m @ ''WEB SEARCH CONTEXT'' @ s)
   \<and> snd (fuseContext (demoEnv True) ''hello'' demoChunks (localSection demoChunks)
            (JObj [(''suggested_search_query'', JObj [(''toString'', JNum 1)])]) [])
       = replicate 2 (GoogleSearch (JObj [(''toString'', JNum 1)]))"
proof -
  have n: "safeDefault \<noteq> JNull"
    by (simp add: safeDefault_def)
  have e: "enableCorrectiveRAG demoRetriever"
    by (simp add: demoRetriever_def)
  have d: "searchSimilarDocuments (demoEnv True) demoRetriever ''Summarize section 2'' 3 []
      = (Inr demoChunks, [Connect ''./lancedb'', OpenTable ''documents'',
            EmbeddingsCreate ''Summarize section 2'', TableSearch [1, 0] 3])"
    by code_simp
  have t: "snd (fuseContext (demoEnv True) ''hello'' demoChunks (localSection demoChunks)
            (JObj [(''suggested_search_query'', JObj [(''toString'', JNum 1)])]) [])
       = replicate 2 (GoogleSearch (JObj [(''toString'', JNum 1)]))"
    by code_simp
  note inst = fuseContext_always_searches [of safeDefault "demoEnv True" "''Summarize section 2''"
      demoChunks "[]" demoRetriever 3 demoChunks
      "[Connect ''./lancedb'', OpenTable ''documents'',
        EmbeddingsCreate ''Summarize section 2'', TableSearch [1, 0] 3]"]
  from inst n e d t show ?thesis
    by blast
qed

lemma performSearch_fails:
  assumes "\<forall>calls. \<exists>e. google_search env calls q = Inl e"
  shows "fst (performSearch env q n lg) = Inr []"
proof -
  from assms obtain e where "google_search env lg q = Inl e" by blast
  then show ?thesis
    by (simp add: performSearch_def tryCatch_def bindIO_def callExt_def returnIO_def liftE_def
        templateValue_def)
qed

lemma getKnowledgeGraph_fails:
  assumes "\<forall>calls. \<exists>e. google_search env calls q = Inl e"
  shows "fst (getKnowledgeGraph env q lg) = Inr None"
proof -
  from assms obtain e where "google_search env lg q = Inl e" by blast
  then show ?thesis
    by (simp add: getKnowledgeGraph_def tryCatch_def bindIO_def callExt_def returnIO_def)
qed

lemma getFeaturedSnippet_fails:
  assumes "\<forall>calls. \<exists>e. google_search env calls q = Inl e"
  shows "fst (getFeaturedSnippet env q lg) = Inr None"
proof -
  from assms obtain e where "google_search env lg q = Inl e" by blast
  then show ?thesis
    by (simp add: getFeaturedSnippet_def tryCatch_def bindIO_def callExt_def returnIO_def)
qed

lemma getSearchContext_fails:
  assumes "\<forall>calls. \<exists>e. google_search env calls q = Inl e"
  shows "fst (getSearchContext env q n lg) = Inr []"
proof -
  obtain results kg fs lg1 lg2 where
    p: "performSearch env q n lg = (Inr results, lg1)"
    and k: "getKnowledgeGraph env q lg1 = (Inr kg, lg2)"
    and f: "getFeaturedSnippet env q lg2 = (Inr fs, lg @ searchCalls q)"
    and c: "comprehensiveSearch env q n lg = (Inr (results, kg, fs), lg @ searchCalls q)"
    using comprehensiveSearch_returns by blast
  from p performSearch_fails [OF assms, of n lg] have "results = []" by simp
  moreover from k getKnowledgeGraph_fails [OF assms, of lg1] have "kg = None" by simp
  moreover from f getFeaturedSnippet_fails [OF assms, of lg2] have "fs = None" by simp
  ultimately show ?thesis
    using c by (simp add: getSearchContext_def bindIO_def returnIO_def truthyStr_def)
qed

text \<open>
  C4. When every call of the web search raises an error, the fusion step still returns: the
  web section is the empty string, and the local section is the one a fusion of the same
  chunks returns in any other environment (one where the web search succeeds), the chunks'
  texts joined.
\<close>

theorem fuseContext_web_failure:
  assumes "analysis \<noteq> JNull"
    and "\<forall>calls q. \<exists>e. google_search env calls q = Inl e"
  shows "\<exists>r r'.
      fst (fuseContext env query localResults (localSection localResults) analysis lg) = Inr r
    \<and> ret_webContext r = Some []
    \<and> fst (fuseContext env' query localResults (localSection localResults) analysis lg') = Inr r'
    \<and> ret_localContext r = ret_localContext r'
    \<and> ret_localContext r = Some (localSection localResults)"
proof -
  from assms(1) obtain suggested where g: "getProp analysis ''suggested_search_query'' = Inr suggested"
    using getProp_not_null by blast
  from fuseContext_returns [OF g, of env query lg localResults "localSection localResults"]
  obtain w where w: "getSearchContext env (orElse suggested (JStr query)) 3 lg
       = (Inr w, lg @ searchCalls (orElse suggested (JStr query)))"
    and f: "fuseContext env query localResults (localSection localResults) analysis lg
       = (Inr \<lparr>ret_context = combinedContext (localSection localResults) w,
                ret_localContext = Some (localSection localResults),
                ret_webContext = Some w,
                ret_chunks = localResults,
                ret_webResults = Some (orElse suggested (JStr query), w),
                ret_analysis = Some analysis\<rparr>,
          lg @ searchCalls (orElse suggested (JStr query)))"
    by blast
  from fuseContext_returns [OF g, of env' query lg' localResults "localSection localResults"]
  obtain w' where f': "fuseContext env' query localResults (localSection localResults) analysis lg'
       = (Inr \<lparr>ret_context = combinedContext (localSection localResults) w',
                ret_localContext = Some (localSection localResults),
                ret_webContext = Some w',
                ret_chunks = localResults,
                ret_webResults = Some (orElse suggested (JStr query), w'),
                ret_analysis = Some analysis\<rparr>,
          lg' @ searchCalls (orElse suggested (JStr query)))"
    by blast
  from assms(2) have "fst (getSearchContext env (orElse suggested (JStr query)) 3 lg) = Inr []"
    using getSearchContext_fails by blast
  with w have "w = []" by simp
  with f f' show ?thesis by simp
qed

theorem fuseContext_web_failure_witness:
  "\<exists>r r'.
      fst (fuseContext (demoEnv False) ''hello'' demoChunks (localSection demoChunks) safeDefault [])
        = Inr r
    \<and> ret_webContext r = Some []
    \<and> fst (fuseContext (demoEnv True) ''hello'' demoChunks (localSection demoChunks) safeDefault [])
        = Inr r'
    \<and> ret_localContext r = ret_localContext r'
    \<and> ret_localContext r = Some (localSection demoChunks)"
proof -
  have "safeDefault \<noteq> JNull"
    by (simp add: safeDefault_def)
  moreover have "\<forall>calls q. \<exists>e. google_search (demoEnv False) calls q = Inl e"
    by (simp add: demoEnv_def)
  ultimately show ?thesis
    by (rule fuseContext_web_failure)
qed

section \<open>The query passed to the web search\<close>

lemma fuseContext_calls:
  assumes "getProp analysis ''suggested_search_query'' = Inr suggested"
  shows "snd (fuseContext env query localResults localContext analysis lg)
     = lg @ searchCalls (orElse suggested (JStr query))"
  using fuseContext_returns [OF assms, of env query lg localResults localContext]
  by auto

lemma truthy_iff:
  "truthy v \<longleftrightarrow> v \<notin> {None, Some JNull, Some (JBool False), Some (JNum 0), Some (JStr [])}"
proof (cases v)
  case None
  then show ?thesis by simp
next
  case (Some x)
  then show ?thesis by (cases x) auto
qed

lemma fuseContext_searchQuery:
  assumes "getProp analysis ''suggested_search_query'' = Inr suggested"
  shows "\<exists>r web n.
      fuseContext env query localResults localContext analysis lg
        = (Inr r, lg @ replicate n (GoogleSearch (orElse suggested (JStr query))))
    \<and> 2 \<le> n \<and> n \<le> 3
    \<and> ret_webResults r = Some (orElse suggested (JStr query), web)"
proof -
  define sq where "sq = orElse suggested (JStr query)"
  from fuseContext_returns [OF assms, of env query lg localResults localContext]
  obtain web where f: "fuseContext env query localResults localContext analysis lg
       = (Inr \<lparr>ret_context = combinedContext localContext web,
                ret_localContext = Some localContext,
                ret_webContext = Some web,
                ret_chunks = localResults,
                ret_webResults = Some (sq, web),
                ret_analysis = Some analysis\<rparr>,
          lg @ searchCalls sq)"
    unfolding sq_def by blast
  obtain n where n: "searchCalls sq = replicate n (GoogleSearch sq)" "2 \<le> n" "n \<le> 3"
    using searchCalls_replicate by blast
  define r where "r = \<lparr>ret_context = combinedContext localContext web,
                ret_localContext = Some localContext,
                ret_webContext = Some web,
                ret_chunks = localResults,
                ret_webResults = Some (sq, web),
                ret_analysis = Some analysis\<rparr>"
  from f n(1) have "fuseContext env query localResults localContext analysis lg
        = (Inr r, lg @ replicate n (GoogleSearch sq))"
    by (simp only: r_def)
  moreover have "ret_webResults r = Some (sq, web)"
    by (simp add: r_def)
  ultimately show ?thesis
    using n(2,3) unfolding sq_def by blast
qed

text \<open>
  C5, as amended. For every verdict, the query passed to the web search (in each of its
  calls, and as the \<open>searchQuery\<close> returned) is the verdict's \<open>suggested_search_query\<close> when
  that field is present and truthy, that is, not \<open>null\<close>, \<open>false\<close>, \<open>0\<close> or the empty string;
  and it is the original query when the field is absent or one of those four values.
\<close>

theorem fuseContext_search_query:
  "(getProp analysis ''suggested_search_query'' = Inr suggested
      \<and> suggested \<in> {None, Some JNull, Some (JBool False), Some (JNum 0), Some (JStr [])}
      \<longrightarrow> (\<exists>r web n.
            fuseContext env query localResults localContext analysis lg
              = (Inr r, lg @ replicate n (GoogleSearch (JStr query)))
          \<and> 2 \<le> n \<and> n \<le> 3
          \<and> ret_webResults r = Some (JStr query, web)))
   \<and> (getProp analysis ''suggested_search_query'' = Inr (Some v)
      \<and> v \<notin> {JNull, JBool False, JNum 0, JStr []}
      \<longrightarrow> (\<exists>r web n.
            fuseContext env query localResults localContext analysis lg
              = (Inr r, lg @ replicate n (GoogleSearch v))
          \<and> 2 \<le> n \<and> n \<le> 3
          \<and> ret_webResults r = Some (v, web)))"
proof (intro conjI impI)
  assume a: "getProp analysis ''suggested_search_query'' = Inr suggested
      \<and> suggested \<in> {None, Some JNull, Some (JBool False), Some (JNum 0), Some (JStr [])}"
  then have "\<not> truthy suggested"
    by (simp add: truthy_iff)
  then have "orElse suggested (JStr query) = JStr query"
    by (simp add: orElse_def)
  with fuseContext_searchQuery [of analysis suggested env query localResults localContext lg] a
  show "\<exists>r web n.
            fuseContext env query localResults localContext analysis lg
              = (Inr r, lg @ replicate n (GoogleSearch (JStr query)))
          \<and> 2 \<le> n \<and> n \<le> 3
          \<and> ret_webResults r = Some (JStr query, web)"
    by simp
next
  assume a: "getProp analysis ''suggested_search_query'' = Inr (Some v)
      \<and> v \<notin> {JNull, JBool False, JNum 0, JStr []}"
  then have "truthy (Some v)"
    by (simp add: truthy_iff)
  then have "orElse (Some v) (JStr query) = v"
    by (simp add: orElse_def)
  with fuseContext_searchQuery [of analysis "Some v" env query localResults localContext lg] a
  show "\<exists>r web n.
            fuseContext env query localResults localContext analysis lg
              = (Inr r, lg @ replicate n (GoogleSearch v))
          \<and> 2 \<le> n \<and> n \<le> 3
          \<and> ret_webResults r = Some (v, web)"
    by simp
qed

theorem fuseContext_search_query_witness:
  "(\<exists>r web n.
      fuseContext (demoEnv True) ''hello'' demoChunks (localSection demoChunks)
          (JObj [(''requires_web_search'', JBool True),
                 (''suggested_search_query'', JStr ''hello world'')]) []
        = (Inr r, [] @ replicate n (GoogleSearch (JStr ''hello world'')))
      \<and> 2 \<le> n \<and> n \<le> 3
      \<and> ret_webResults r = Some (JStr ''hello world'', web))
   \<and> (\<exists>r web n.
      fuseContext (demoEnv True) ''hello'' demoChunks (localSection demoChunks)
          (JObj [(''suggested_search_query'', JBool False)]) []
        = (Inr r, [] @ replicate n (GoogleSearch (JStr ''hello'')))
      \<and> 2 \<le> n \<and> n \<le> 3
      \<and> ret_webResults r = Some (JStr ''hello'', web))"
proof -
  have 1: "getProp (JObj [(''requires_web_search'', JBool True),
                 (''suggested_search_query'', JStr ''hello world'')]) ''suggested_search_query''
      = Inr (Some (JStr ''hello world''))
    \<and> JStr ''hello world'' \<notin> {JNull, JBool False, JNum 0, JStr []}"
    by simp
  have 2: "getProp (JObj [(''suggested_search_query'', JBool False)]) ''suggested_search_query''
      = Inr (Some (JBool False))
    \<and> Some (JBool False) \<in> {None, Some JNull, Some (JBool False), Some (JNum 0), Some (JStr [])}"
    by simp
  from 1 fuseContext_search_query [where analysis = "JObj [(''requires_web_search'', JBool True),
                 (''suggested_search_query'', JStr ''hello world'')]"
      and v = "JStr ''hello world''" and env = "demoEnv True" and query = "''hello''"
      and localResults = demoChunks and localContext = "localSection demoChunks" and lg = "[]"]
  have a: "\<exists>r web n.
      fuseContext (demoEnv True) ''hello'' demoChunks (localSection demoChunks)
          (JObj [(''requires_web_search'', JBool True),
                 (''suggested_search_query'', JStr ''hello world'')]) []
        = (Inr r, [] @ replicate n (GoogleSearch (JStr ''hello world'')))
      \<and> 2 \<le> n \<and> n \<le> 3
      \<and> ret_webResults r = Some (JStr ''hello world'', web)"
    by blast
  from 2 fuseContext_search_query [where analysis = "JObj [(''suggested_search_query'', JBool False)]"
      and suggested = "Some (JBool False)" and env = "demoEnv True" and query = "''hello''"
      and localResults = demoChunks and localContext = "localSection demoChunks" and lg = "[]"]
  have b: "\<exists>r web n.
      fuseContext (demoEnv True) ''hello'' demoChunks (localSection demoChunks)
          (JObj [(''suggested_search_query'', JBool False)]) []
        = (Inr r, [] @ replicate n (GoogleSearch (JStr ''hello'')))
      \<and> 2 \<le> n \<and> n \<le> 3
      \<and> ret_webResults r = Some (JStr ''hello'', web)"
    by blast
  from a b show ?thesis by blast
qed

text \<open>
  C5 as stated fails on a verdict whose \<open>suggested_search_query\<close> is present and is the
  empty string: the field is there, a string, and the query passed to the web search is the
  original query, not the field.
\<close>

theorem suggestedQuery_empty_counterexample:
  "getProp emptySuggestion ''suggested_search_query'' = Inr (Some (JStr []))
   \<and> snd (fuseContext (demoEnv True) ''hello'' demoChunks (localSection demoChunks) emptySuggestion [])
       = [GoogleSearch (JStr ''hello''), GoogleSearch (JStr ''hello''), GoogleSearch (JStr ''hello'')]
   \<and> JStr ''hello'' \<noteq> JStr []"
  by code_simp

lemma orElse_not_empty:
  assumes "query \<noteq> []"
  shows "orElse suggested (JStr query) \<noteq> JStr []"
proof (cases suggested)
  case None
  with assms show ?thesis by (simp add: orElse_def)
next
  case (Some v)
  with assms show ?thesis by (cases v) (simp_all add: orElse_def)
qed

text \<open>
  C10. For a verdict whose \<open>suggested_search_query\<close> is the empty string, the fusion step
  passes the original query to the web search (the three calls, and the \<open>searchQuery\<close> it
  returns); and when the original query is not empty, no call of the web search made by the
  fusion step has the empty string as its query, whatever the verdict.
\<close>

theorem fuseContext_empty_suggestion:
  "(getProp analysis ''suggested_search_query'' = Inr (Some (JStr []))
      \<longrightarrow> snd (fuseContext env query localResults localContext analysis lg)
            = lg @ replicate 3 (GoogleSearch (JStr query))
          \<and> (\<exists>r web. fst (fuseContext env query localResults localContext analysis lg) = Inr r
                \<and> ret_webResults r = Some (JStr query, web)))
   \<and> (query \<noteq> []
      \<longrightarrow> (\<exists>qs. snd (fuseContext env query localResults localContext analysis lg)
                  = lg @ map GoogleSearch qs
              \<and> JStr [] \<notin> set qs))"
proof (intro conjI impI)
  assume g: "getProp analysis ''suggested_search_query'' = Inr (Some (JStr []))"
  then show "snd (fuseContext env query localResults localContext analysis lg)
      = lg @ replicate 3 (GoogleSearch (JStr query))"
    by (simp add: fuseContext_calls orElse_def searchCalls_JStr)
  from fuseContext_returns [OF g, of env query lg localResults localContext]
  show "\<exists>r web. fst (fuseContext env query localResults localContext analysis lg) = Inr r
      \<and> ret_webResults r = Some (JStr query, web)"
    by (auto simp: orElse_def)
next
  assume q: "query \<noteq> []"
  show "\<exists>qs. snd (fuseContext env query localResults localContext analysis lg)
          = lg @ map GoogleSearch qs \<and> JStr [] \<notin> set qs"
  proof (cases "getProp analysis ''suggested_search_query''")
    case (Inl e)
    then have "snd (fuseContext env query localResults localContext analysis lg) = lg @ map GoogleSearch []"
      by (simp add: fuseContext_def bindIO_def liftE_def)
    then show ?thesis by (metis empty_iff list.set(1))
  next
    case (Inr suggested)
    obtain n where "searchCalls (orElse suggested (JStr query))
        = replicate n (GoogleSearch (orElse suggested (JStr query)))"
      using searchCalls_replicate by blast
    with Inr have "snd (fuseContext env query localResults localContext analysis lg)
        = lg @ map GoogleSearch (replicate n (orElse suggested (JStr query)))"
      by (simp add: fuseContext_calls)
    moreover have "JStr [] \<notin> set (replicate n (orElse suggested (JStr query)))"
      using orElse_not_empty [OF q, of suggested] by auto
    ultimately show ?thesis by blast
  qed
qed

theorem fuseContext_empty_suggestion_witness:
  "snd (fuseContext (demoEnv True) ''hello'' demoChunks (localSection demoChunks) emptySuggestion [])
     = replicate 3 (GoogleSearch (JStr ''hello''))"
proof -
  have "getProp emptySuggestion ''suggested_search_query'' = Inr (Some (JStr []))"
    by (simp add: emptySuggestion_def)
  with fuseContext_empty_suggestion [of emptySuggestion "demoEnv True" "''hello''" demoChunks
      "localSection demoChunks" "[]"]
  show ?thesis by simp
qed

section \<open>Retrieval\<close>

lemma forEachE_displayChunk:
  "forEachE displayChunk rows = Inr () \<longleftrightarrow> (\<forall>c \<in> set rows. chunk_text c \<noteq> None)"
  by (induction rows) (auto simp: displayChunk_def split: option.splits)

lemma searchSimilarDocuments_returns:
  assumes "lancedb_connect env lg (dbPath this) = Inr ()"
    and "db_openTable env (lg @ [Connect (dbPath this)]) ''documents'' = Inr ()"
    and "embeddings_create env (lg @ [Connect (dbPath this), OpenTable ''documents'']) query = Inr v"
    and "table_search env (lg @ [Connect (dbPath this), OpenTable ''documents'', EmbeddingsCreate query])
           v topK = Inr rows"
    and "\<forall>c \<in> set rows. chunk_text c \<noteq> None"
  shows "searchSimilarDocuments env this query topK lg
     = (Inr rows, lg @ [Connect (dbPath this), OpenTable ''documents'', EmbeddingsCreate query,
                        TableSearch v topK])"
proof -
  from assms(5) have "forEachE displayChunk rows = Inr ()"
    by (simp add: forEachE_displayChunk)
  with assms(1-4) show ?thesis
    by (simp add: searchSimilarDocuments_def generateQueryEmbedding_def tryCatch_def bindIO_def
        callExt_def liftE_def returnIO_def)
qed

lemma searchSimilarDocuments_Inr:
  assumes "fst (searchSimilarDocuments env this query topK lg) = Inr out"
  shows "\<exists>calls v. table_search env calls v topK = Inr out"
  using assms
  by (auto simp: searchSimilarDocuments_def generateQueryEmbedding_def tryCatch_def bindIO_def
      callExt_def liftE_def returnIO_def throwIO_def split: sum.splits prod.splits)

lemma searchSimilarDocuments_fails:
  assumes "fst (searchSimilarDocuments env this query topK lg) = Inl e"
  shows "lancedb_connect env lg (dbPath this) = Inl e
    \<or> db_openTable env (lg @ [Connect (dbPath this)]) ''documents'' = Inl e
    \<or> embeddings_create env (lg @ [Connect (dbPath this), OpenTable ''documents'']) query = Inl e
    \<or> (\<exists>v. table_search env
              (lg @ [Connect (dbPath this), OpenTable ''documents'', EmbeddingsCreate query]) v topK
            = Inl e)
    \<or> (\<exists>v rows. table_search env
              (lg @ [Connect (dbPath this), OpenTable ''documents'', EmbeddingsCreate query]) v topK
            = Inr rows \<and> forEachE displayChunk rows = Inl e)"
  using assms
  by (auto simp: searchSimilarDocuments_def generateQueryEmbedding_def tryCatch_def bindIO_def
      callExt_def liftE_def returnIO_def throwIO_def split: sum.splits prod.splits)

text \<open>
  C8. Over an index of \<open>N\<close> rows whose search honours the ordered-search contract, and for
  \<open>1 \<le> topK \<le> N\<close>, the rows \<open>searchSimilarDocuments\<close> returns are exactly \<open>topK\<close> and
  their distances do not decrease along the list.
\<close>

theorem searchSimilarDocuments_ranked:
  assumes "honoursContract env N" and "1 \<le> topK" and "topK \<le> N"
    and "fst (searchSimilarDocuments env this query topK lg) = Inr out"
  shows "length out = topK \<and> sorted (map chunk_distance out)"
proof -
  from assms(4) obtain calls v where "table_search env calls v topK = Inr out"
    using searchSimilarDocuments_Inr by blast
  with assms(1) have "length out = min topK N \<and> sorted (map chunk_distance out)"
    unfolding honoursContract_def by blast
  with assms(3) show ?thesis
    by (simp add: min_def)
qed

lemma demoEnv_contract: "honoursContract (demoEnv online) 3"
proof -
  have s: "sorted (map chunk_distance demoChunks)"
    by (simp add: demoChunks_def)
  have "sorted (map chunk_distance (take k demoChunks))" for k
    using sorted_wrt_take [OF s, of k] by (simp add: take_map)
  moreover have "length demoChunks = 3"
    by (simp add: demoChunks_def)
  ultimately show ?thesis
    by (simp add: honoursContract_def demoEnv_def min_def) 
qed

theorem searchSimilarDocuments_ranked_witness:
  "honoursContract (demoEnv True) 3
   \<and> fst (searchSimilarDocuments (demoEnv True) demoRetriever ''hello'' 2 []) = Inr (take 2 demoChunks)
   \<and> length (take 2 demoChunks) = 2
   \<and> sorted (map chunk_distance (take 2 demoChunks))"
proof -
  have r: "fst (searchSimilarDocuments (demoEnv True) demoRetriever ''hello'' 2 [])
      = Inr (take 2 demoChunks)"
    by code_simp
  from searchSimilarDocuments_ranked [OF demoEnv_contract _ _ r]
  have "length (take 2 demoChunks) = 2 \<and> sorted (map chunk_distance (take 2 demoChunks))"
    by simp
  with r demoEnv_contract show ?thesis by blast
qed

text \<open>
  C6. \<open>retrieveContext\<close> raises an error exactly when its retrieval step,
  \<open>searchSimilarDocuments\<close>, raises it, and it is that error; whatever the analyzer's
  collaborators and the web search do, a retrieval that returns rows makes \<open>retrieveContext\<close>
  return a result holding those rows and a context string: the fused context, or the local
  section alone when corrective RAG is off.
\<close>

theorem retrieveContext_error_propagation:
  "case fst (searchSimilarDocuments env this query topK lg) of
     Inl e \<Rightarrow> fst (retrieveContext env this query topK lg) = Inl e
   | Inr rows \<Rightarrow>
       (\<exists>r web. fst (retrieveContext env this query topK lg) = Inr r
          \<and> ret_chunks r = rows
          \<and> ret_context r = (if enableCorrectiveRAG this
                              then combinedContext (localSection rows) web
                              else localSection rows))"
proof (cases "searchSimilarDocuments env this query topK lg")
  case (Pair res lg1)
  show ?thesis
  proof (cases res)
    case (Inl e)
    with Pair show ?thesis
      by (simp add: retrieveContext_def bindIO_def)
  next
    case (Inr rows)
    show ?thesis
    proof (cases "enableCorrectiveRAG this")
      case False
      with Pair Inr show ?thesis
        by (simp add: retrieveContext_def bindIO_def returnIO_def Let_def)
    next
      case True
      from retrieveContext_returns [OF Pair [unfolded Inr] True]
      obtain analysis lg2 suggested web where "retrieveContext env this query topK lg
        = (Inr \<lparr>ret_context = combinedContext (localSection rows) web,
                 ret_localContext = Some (localSection rows),
                 ret_webContext = Some web,
                 ret_chunks = rows,
                 ret_webResults = Some (orElse suggested (JStr query), web),
                 ret_analysis = Some analysis\<rparr>,
           lg2 @ searchCalls (orElse suggested (JStr query)))"
        by blast
      with Pair Inr True show ?thesis
        by auto
    qed
  qed
qed

theorem retrieveContext_error_propagation_witness:
  "fst (searchSimilarDocuments (demoEnv False) demoRetriever ''hello'' 3 []) = Inr demoChunks
   \<and> (\<exists>r web. fst (retrieveContext (demoEnv False) demoRetriever ''hello'' 3 []) = Inr r
         \<and> ret_chunks r = demoChunks
         \<and> ret_context r = combinedContext (localSection demoChunks) web)
   \<and> fst (retrieveContext
             (demoEnv True\<lparr>embeddings_create := (\<lambda>calls input. Inl (Error ''ECONNREFUSED''))\<rparr>)
             demoRetriever ''hello'' 3 [])
       = Inl (Error ''ECONNREFUSED'')"
proof -
  have s: "fst (searchSimilarDocuments (demoEnv False) demoRetriever ''hello'' 3 []) = Inr demoChunks"
    by code_simp
  have e: "enableCorrectiveRAG demoRetriever"
    by (simp add: demoRetriever_def)
  from retrieveContext_error_propagation [of "demoEnv False" demoRetriever "''hello''" 3 "[]"] s e
  have a: "\<exists>r web. fst (retrieveContext (demoEnv False) demoRetriever ''hello'' 3 []) = Inr r
         \<and> ret_chunks r = demoChunks
         \<and> ret_context r = combinedContext (localSection demoChunks) web"
    by simp
  have d: "fst (searchSimilarDocuments
             (demoEnv True\<lparr>embeddings_create := (\<lambda>calls input. Inl (Error ''ECONNREFUSED''))\<rparr>)
             demoRetriever ''hello'' 3 [])
       = Inl (Error ''ECONNREFUSED'')"
    by code_simp
  from retrieveContext_error_propagation
         [of "demoEnv True\<lparr>embeddings_create := (\<lambda>calls input. Inl (Error ''ECONNREFUSED''))\<rparr>"
             demoRetriever "''hello''" 3 "[]"] d
  have b: "fst (retrieveContext
             (demoEnv True\<lparr>embeddings_create := (\<lambda>calls input. Inl (Error ''ECONNREFUSED''))\<rparr>)
             demoRetriever ''hello'' 3 [])
       = Inl (Error ''ECONNREFUSED'')"
    by simp
  from s a b show ?thesis by blast
qed

section \<open>The layout of the fused context\<close>

lemma arr_join_specJoin: "arr_join sep xs = specJoin sep xs"
  by (induction sep xs rule: arr_join.induct) (simp_all add: specJoin_def)

lemma mapIdx_nth: "mapIdx f k xs = map (\<lambda>i. f (k + i) (xs ! i)) [0..<length xs]"
proof (induction xs arbitrary: k)
  case Nil
  then show ?case by simp
next
  case (Cons x xs)
  have "map (\<lambda>i. f (k + i) ((x # xs) ! i)) [0..<Suc (length xs)]
      = f k x # map (\<lambda>i. f (Suc k + i) (xs ! i)) [0..<length xs]"
    by (simp add: map_upt_Suc del: upt_Suc)
  with Cons [of "Suc k"] show ?case by simp
qed

lemma performSearch_snippet:
  assumes "performSearch env q n lg = (Inr results, lg')"
  shows "\<forall>r \<in> set results. wr_snippet r = wr_description r"
  using assms
  by (auto simp: performSearch_def tryCatch_def bindIO_def callExt_def returnIO_def liftE_def
      templateValue_def Let_def toWebResult_def split: sum.splits if_splits)

lemma webSourceText_spec: "wr_snippet r = wr_description r \<Longrightarrow> webSourceText idx r = specWebEntry (idx + 1) r"
  by (simp add: webSourceText_def specWebEntry_def)

lemma mapIdx_webSourceText:
  assumes "\<forall>r \<in> set results. wr_snippet r = wr_description r"
  shows "mapIdx webSourceText 0 results
     = map (\<lambda>i. specWebEntry (i + 1) (results ! i)) [0..<length results]"
  using assms by (simp add: mapIdx_nth webSourceText_spec)

lemma getSearchContext_layout:
  "\<exists>results panel featured lg1 lg2 lg3.
       performSearch env q n lg = (Inr results, lg1)
     \<and> getKnowledgeGraph env q lg1 = (Inr panel, lg2)
     \<and> getFeaturedSnippet env q lg2 = (Inr featured, lg3)
     \<and> getSearchContext env q n lg = (Inr (specWebSection featured panel results), lg3)"
proof -
  obtain results panel featured lg1 lg2 where
    p: "performSearch env q n lg = (Inr results, lg1)"
    and k: "getKnowledgeGraph env q lg1 = (Inr panel, lg2)"
    and f: "getFeaturedSnippet env q lg2 = (Inr featured, lg @ searchCalls q)"
    and c: "comprehensiveSearch env q n lg = (Inr (results, panel, featured), lg @ searchCalls q)"
    using comprehensiveSearch_returns by blast
  have m: "mapIdx webSourceText 0 results
     = map (\<lambda>i. specWebEntry (i + 1) (results ! i)) [0..<length results]"
    using performSearch_snippet [OF p] by (rule mapIdx_webSourceText)
  have "getSearchContext env q n lg
      = (Inr (specWebSection featured panel results), lg @ searchCalls q)"
    unfolding getSearchContext_def bindIO_def c
    by (simp add: returnIO_def Let_def specWebSection_def truthyStr_def m arr_join_specJoin
        split: option.splits)
  with p k f show ?thesis by blast
qed

text \<open>
  C7. The web section \<open>getSearchContext\<close> returns is the featured snippet (if the getter
  gave a non-empty text), then the knowledge panel (likewise), then the results of
  \<open>performSearch\<close> numbered from 1, each as \<open>[Web Source i: title]\<close>, \<open>URL: url\<close>,
  \<open>Content: snippet\<close>, joined by the separator line; and the fused context is the local
  heading, the chunks' texts joined by blank lines in the order retrieved, the web heading,
  and beneath it the web section of the query that was searched.
\<close>

theorem fused_layout:
  "(\<exists>results panel featured lg1 lg2 lg3.
       performSearch env q n lg = (Inr results, lg1)
     \<and> getKnowledgeGraph env q lg1 = (Inr panel, lg2)
     \<and> getFeaturedSnippet env q lg2 = (Inr featured, lg3)
     \<and> getSearchContext env q n lg = (Inr (specWebSection featured panel results), lg3))
   \<and> (analysis \<noteq> JNull \<longrightarrow>
       (\<exists>r searchQuery web.
           fst (fuseContext env query localResults (localSection localResults) analysis lg) = Inr r
         \<and> ret_webResults r = Some (searchQuery, web)
         \<and> fst (getSearchContext env searchQuery 3 lg) = Inr web
         \<and> ret_localContext r = Some (specLocalSection localResults)
         \<and> ret_webContext r = Some web
         \<and> ret_context r
             = ''=== LOCAL DOCUMENT CONTEXT ===\<newline>\<newline>'' @ specLocalSection localResults
               @ ''\<newline>\<newline>=== WEB SEARCH CONTEXT (Additional Information) ===\<newline>\<newline>''
               @ web))"
proof (intro conjI impI)
  show "\<exists>results panel featured lg1 lg2 lg3.
       performSearch env q n lg = (Inr results, lg1)
     \<and> getKnowledgeGraph env q lg1 = (Inr panel, lg2)
     \<and> getFeaturedSnippet env q lg2 = (Inr featured, lg3)
     \<and> getSearchContext env q n lg = (Inr (specWebSection featured panel results), lg3)"
    by (rule getSearchContext_layout)
next
  assume "analysis \<noteq> JNull"
  then obtain suggested where g: "getProp analysis ''suggested_search_query'' = Inr suggested"
    using getProp_not_null by blast
  define sq where "sq = orElse suggested (JStr query)"
  from fuseContext_returns [OF g, of env query lg localResults "localSection localResults"]
  obtain web where w: "getSearchContext env sq 3 lg = (Inr web, lg @ searchCalls sq)"
    and f: "fuseContext env query localResults (localSection localResults) analysis lg
       = (Inr \<lparr>ret_context = combinedContext (localSection localResults) web,
                ret_localContext = Some (localSection localResults),
                ret_webContext = Some web,
                ret_chunks = localResults,
                ret_webResults = Some (sq, web),
                ret_analysis = Some analysis\<rparr>,
          lg @ searchCalls sq)"
    unfolding sq_def by blast
  have l: "localSection localResults = specLocalSection localResults"
    by (simp add: localSection_def specLocalSection_def arr_join_specJoin)
  have c: "combinedContext (specLocalSection localResults) web
      = ''=== LOCAL DOCUMENT CONTEXT ===\<newline>\<newline>'' @ specLocalSection localResults
               @ ''\<newline>\<newline>=== WEB SEARCH CONTEXT (Additional Information) ===\<newline>\<newline>''
               @ web"
    by (simp add: combinedContext_def)
  define r where "r = \<lparr>ret_context = combinedContext (localSection localResults) web,
                ret_localContext = Some (localSection localResults),
                ret_webContext = Some web,
                ret_chunks = localResults,
                ret_webResults = Some (sq, web),
                ret_analysis = Some analysis\<rparr>"
  have 1: "fst (fuseContext env query localResults (localSection localResults) analysis lg) = Inr r"
    using f by (simp add: r_def)
  have 2: "ret_webResults r = Some (sq, web)" "ret_webContext r = Some web"
    by (simp_all add: r_def)
  have 3: "fst (getSearchContext env sq 3 lg) = Inr web"
    using w by simp
  have 4: "ret_localContext r = Some (specLocalSection localResults)"
    by (simp add: r_def l)
  have "ret_context r = combinedContext (specLocalSection localResults) web"
    by (simp add: r_def l)
  with c have 5: "ret_context r
             = ''=== LOCAL DOCUMENT CONTEXT ===\<newline>\<newline>'' @ specLocalSection localResults
               @ ''\<newline>\<newline>=== WEB SEARCH CONTEXT (Additional Information) ===\<newline>\<newline>''
               @ web"
    by (simp only:)
  from 1 2 3 4 5 show "\<exists>r searchQuery web.
           fst (fuseContext env query localResults (localSection localResults) analysis lg) = Inr r
         \<and> ret_webResults r = Some (searchQuery, web)
         \<and> fst (getSearchContext env searchQuery 3 lg) = Inr web
         \<and> ret_localContext r = Some (specLocalSection localResults)
         \<and> ret_webContext r = Some web
         \<and> ret_context r
             = ''=== LOCAL DOCUMENT CONTEXT ===\<newline>\<newline>'' @ specLocalSection localResults
               @ ''\<newline>\<newline>=== WEB SEARCH CONTEXT (Additional Information) ===\<newline>\<newline>''
               @ web"
    by blast
qed


theorem fused_layout_witness:
  "(\<exists>r searchQuery web.
      fst (fuseContext (demoEnv True) ''hello'' demoChunks (localSection demoChunks) safeDefault [])
        = Inr r
    \<and> ret_webResults r = Some (searchQuery, web)
    \<and> fst (getSearchContext (demoEnv True) searchQuery 3 []) = Inr web
    \<and> ret_localContext r = Some (specLocalSection demoChunks)
    \<and> ret_webContext r = Some web
    \<and> ret_context r
        = ''=== LOCAL DOCUMENT CONTEXT ===\<newline>\<newline>'' @ specLocalSection demoChunks
          @ ''\<newline>\<newline>=== WEB SEARCH CONTEXT (Additional Information) ===\<newline>\<newline>''
          @ web)
   \<and> specLocalSection demoChunks = ''alpha\<newline>\<newline>beta\<newline>\<newline>gamma''
   \<and> fst (getSearchContext (demoEnv True) (JStr ''hello'') 3 [])
       = Inr (''=== FEATURED SNIPPET ===\<newline>Title: FT\<newline>Content: FD\<newline>\<newline>\<newline>''
            @ ''=== KNOWLEDGE GRAPH ===\<newline>Title: KT\<newline>Description: KD\<newline>\<newline>\<newline>''
            @ ''=== SEARCH RESULTS ===\<newline>\<newline>''
            @ ''[Web Source 1: T1]\<newline>URL: http://a\<newline>Content: D1''
            @ ''\<newline>\<newline>---\<newline>\<newline>''
            @ ''[Web Source 2: T2]\<newline>URL: \<newline>Content: D2'')"
proof -
  have n: "safeDefault \<noteq> JNull"
    by (simp add: safeDefault_def)
  have a: "specLocalSection demoChunks = ''alpha\<newline>\<newline>beta\<newline>\<newline>gamma''"
    by code_simp
  have b: "fst (getSearchContext (demoEnv True) (JStr ''hello'') 3 [])
       = Inr (''=== FEATURED SNIPPET ===\<newline>Title: FT\<newline>Content: FD\<newline>\<newline>\<newline>''
            @ ''=== KNOWLEDGE GRAPH ===\<newline>Title: KT\<newline>Description: KD\<newline>\<newline>\<newline>''
            @ ''=== SEARCH RESULTS ===\<newline>\<newline>''
            @ ''[Web Source 1: T1]\<newline>URL: http://a\<newline>Content: D1''
            @ ''\<newline>\<newline>---\<newline>\<newline>''
            @ ''[Web Source 2: T2]\<newline>URL: \<newline>Content: D2'')"
    by code_simp
  from fused_layout [of "demoEnv True" "JStr ''hello''" 3 "[]" safeDefault "''hello''" demoChunks] n
  have "\<exists>r searchQuery web.
      fst (fuseContext (demoEnv True) ''hello'' demoChunks (localSection demoChunks) safeDefault [])
        = Inr r
    \<and> ret_webResults r = Some (searchQuery, web)
    \<and> fst (getSearchContext (demoEnv True) searchQuery 3 []) = Inr web
    \<and> ret_localContext r = Some (specLocalSection demoChunks)
    \<and> ret_webContext r = Some web
    \<and> ret_context r
        = ''=== LOCAL DOCUMENT CONTEXT ===\<newline>\<newline>'' @ specLocalSection demoChunks
          @ ''\<newline>\<newline>=== WEB SEARCH CONTEXT (Additional Information) ===\<newline>\<newline>''
          @ web"
    by blast
  with a b show ?thesis by (simp only: simp_thms)
qed

end
